theory Spec2Isabelle
  imports Complex_Main "HOL-Library.Word"
begin

section \<open>Python values used by the detection server\<close>

text \<open>
  The server is three Python files: \<^verbatim>\<open>yolo_detector.py\<close> (the class
  \<^verbatim>\<open>YOLODetector\<close> with \<^verbatim>\<open>load_model\<close> and \<^verbatim>\<open>detect_objects\<close>),
  \<^verbatim>\<open>main.py\<close> (the FastAPI handlers) and a start script. The embedding below
  follows the two first files function by function. A raised exception is a value
  \<open>Inl msg\<close>, where \<open>msg\<close> is what \<^verbatim>\<open>str(e)\<close> gives.
\<close>

type_synonym byte = "8 word"
type_synonym bytes = "byte list"

text \<open>
  A Python \<^verbatim>\<open>float\<close>: a finite value, taken as the rational it denotes, or one of
  the three special values. Arithmetic on finite values is exact in this model; the
  special values follow IEEE 754.
\<close>

datatype pyfloat = Finite rat | PosInf | NegInf | NaN

fun is_finite :: "pyfloat \<Rightarrow> bool" where
  "is_finite (Finite x) = True"
| "is_finite PosInf = False"
| "is_finite NegInf = False"
| "is_finite NaN = False"

text \<open>\<^verbatim>\<open>a - b\<close> on floats.\<close>

fun float_sub :: "pyfloat \<Rightarrow> pyfloat \<Rightarrow> pyfloat" where
  "float_sub (Finite a) (Finite b) = Finite (a - b)"
| "float_sub NaN b = NaN"
| "float_sub a NaN = NaN"
| "float_sub PosInf PosInf = NaN"
| "float_sub NegInf NegInf = NaN"
| "float_sub PosInf b = PosInf"
| "float_sub NegInf b = NegInf"
| "float_sub (Finite a) PosInf = NegInf"
| "float_sub (Finite a) NegInf = PosInf"

text \<open>\<^verbatim>\<open>a * 100\<close> on floats.\<close>

fun float_times_100 :: "pyfloat \<Rightarrow> pyfloat" where
  "float_times_100 (Finite a) = Finite (a * 100)"
| "float_times_100 PosInf = PosInf"
| "float_times_100 NegInf = NegInf"
| "float_times_100 NaN = NaN"

text \<open>
  Python's \<^verbatim>\<open>round\<close> goes to the nearest integer and, of two equally near ones,
  to the even one.
\<close>

definition py_round :: "rat \<Rightarrow> int" where
  "py_round x =
     (let f = \<lfloor>x\<rfloor>; d = x - of_int f
      in if d < 1 / 2 then f
         else if 1 / 2 < d then f + 1
         else if even f then f else f + 1)"

text \<open>\<^verbatim>\<open>round(x)\<close>: an \<^verbatim>\<open>int\<close>, or ValueError / OverflowError.\<close>

fun round_float :: "pyfloat \<Rightarrow> string + int" where
  "round_float (Finite x) = Inr (py_round x)"
| "round_float NaN = Inl ''cannot convert float NaN to integer''"
| "round_float PosInf = Inl ''cannot convert float infinity to integer''"
| "round_float NegInf = Inl ''cannot convert float infinity to integer''"

text \<open>\<^verbatim>\<open>round(x, n)\<close>: a float again; the special values pass through.\<close>

fun round_ndigits :: "pyfloat \<Rightarrow> nat \<Rightarrow> pyfloat" where
  "round_ndigits (Finite x) n = Finite (of_int (py_round (x * 10 ^ n)) / 10 ^ n)"
| "round_ndigits PosInf n = PosInf"
| "round_ndigits NegInf n = NegInf"
| "round_ndigits NaN n = NaN"

text \<open>\<^verbatim>\<open>int(x)\<close> truncates towards zero.\<close>

fun int_of_float :: "pyfloat \<Rightarrow> string + int" where
  "int_of_float (Finite x) = Inr (if 0 \<le> x then \<lfloor>x\<rfloor> else \<lceil>x\<rceil>)"
| "int_of_float NaN = Inl ''cannot convert float NaN to integer''"
| "int_of_float PosInf = Inl ''cannot convert float infinity to integer''"
| "int_of_float NegInf = Inl ''cannot convert float infinity to integer''"

subsection \<open>Printing numbers\<close>

definition digit_char :: "nat \<Rightarrow> char" where
  "digit_char n = ''0123456789'' ! (n mod 10)"

fun str_nat :: "nat \<Rightarrow> string" where
  "str_nat n = (if n < 10 then [digit_char n] else str_nat (n div 10) @ [digit_char n])"

declare str_nat.simps [simp del]

text \<open>\<^verbatim>\<open>str(i)\<close> for an \<^verbatim>\<open>int\<close>.\<close>

definition str_int :: "int \<Rightarrow> string" where
  "str_int i = (if i < 0 then ''-'' @ str_nat (nat (- i)) else str_nat (nat i))"

text \<open>A number printed with at least \<open>k\<close> digits, as \<^verbatim>\<open>%02d\<close> does for \<open>k = 2\<close>.\<close>

definition zero_pad :: "nat \<Rightarrow> nat \<Rightarrow> string" where
  "zero_pad k n = replicate (k - length (str_nat n)) (CHR ''0'') @ str_nat n"

text \<open>Reading a number back from its digits, to tell printed numbers apart.\<close>

definition digit_value :: "char \<Rightarrow> nat" where
  "digit_value c = of_char c - 48"

definition parse_nat :: "string \<Rightarrow> nat" where
  "parse_nat s = foldl (\<lambda>acc c. 10 * acc + digit_value c) 0 s"

subsection \<open>Dates\<close>

record datetime =
  year :: nat
  month :: nat
  day :: nat
  hour :: nat
  minute :: nat
  second :: nat
  microsecond :: nat

text \<open>The fields of a \<^verbatim>\<open>datetime\<close> object are bounded.\<close>

definition valid_datetime :: "datetime \<Rightarrow> bool" where
  "valid_datetime t =
     (year t \<le> 9999 \<and> month t \<le> 12 \<and> day t \<le> 31 \<and> hour t \<le> 23 \<and>
      minute t \<le> 59 \<and> second t \<le> 59)"

text \<open>Two times that agree down to the second.\<close>

definition same_second :: "datetime \<Rightarrow> datetime \<Rightarrow> bool" where
  "same_second a b =
     (year a = year b \<and> month a = month b \<and> day a = day b \<and> hour a = hour b \<and>
      minute a = minute b \<and> second a = second b)"

text \<open>
  \<^verbatim>\<open>strftime("%Y%m%d_%H%M%S")\<close>; the year has four digits for every year from
  1000 on.
\<close>

definition strftime :: "datetime \<Rightarrow> string" where
  "strftime t =
     zero_pad 4 (year t) @ zero_pad 2 (month t) @ zero_pad 2 (day t) @ ''_'' @
     zero_pad 2 (hour t) @ zero_pad 2 (minute t) @ zero_pad 2 (second t)"

text \<open>\<^verbatim>\<open>isoformat()\<close>: the microseconds are printed unless they are zero.\<close>

definition isoformat :: "datetime \<Rightarrow> string" where
  "isoformat t =
     zero_pad 4 (year t) @ ''-'' @ zero_pad 2 (month t) @ ''-'' @ zero_pad 2 (day t) @ ''T'' @
     zero_pad 2 (hour t) @ '':'' @ zero_pad 2 (minute t) @ '':'' @ zero_pad 2 (second t) @
     (if microsecond t = 0 then [] else ''.'' @ zero_pad 6 (microsecond t))"

subsection \<open>JSON\<close>

text \<open>What a handler passes to \<^verbatim>\<open>JSONResponse\<close>: a dict keeps its insertion order.\<close>

datatype json =
    JNull
  | JInt int
  | JFloat pyfloat
  | JStr string
  | JList "json list"
  | JDict "(string \<times> json) list"

record response =
  status_code :: nat
  content :: json

text \<open>\<open>d[k]\<close> on a response body: the value under a key, if the body is a dict with it.\<close>

fun field :: "json \<Rightarrow> string \<Rightarrow> json option" where
  "field (JDict kvs) k = map_of kvs k"
| "field j k = None"

section \<open>The detection library, the codec and the operating system\<close>

text \<open>
  A decoded image is what \<^verbatim>\<open>cv2.imdecode\<close> and \<^verbatim>\<open>np.zeros\<close> return: the two
  dimensions read by the code (\<^verbatim>\<open>shape[0]\<close> and \<^verbatim>\<open>shape[1]\<close>) and the pixels.
\<close>

record image =
  shape0 :: nat
  shape1 :: nat
  pixel :: "nat \<Rightarrow> nat \<Rightarrow> nat \<Rightarrow> byte"

text \<open>\<^verbatim>\<open>np.zeros((640, 640, 3), dtype=np.uint8)\<close>\<close>

definition dummy_image :: image where
  "dummy_image = \<lparr>shape0 = 640, shape1 = 640, pixel = (\<lambda>i j c. 0)\<rparr>"

text \<open>
  One box of a result of the library: \<^verbatim>\<open>box.conf[0]\<close>, \<^verbatim>\<open>box.cls[0]\<close> and the four
  numbers of \<^verbatim>\<open>box.xyxy[0].tolist()\<close>.
\<close>

record raw_box =
  conf :: pyfloat
  cls :: pyfloat
  xyxy :: "pyfloat \<times> pyfloat \<times> pyfloat \<times> pyfloat"

text \<open>A result of the library has \<^verbatim>\<open>boxes\<close>, which may be \<^verbatim>\<open>None\<close>.\<close>

type_synonym yolo_result = "raw_box list option"

text \<open>
  A model object of the library: its \<^verbatim>\<open>names\<close> dict and what calling it on an
  image returns, with the \<^verbatim>\<open>conf\<close> threshold if one is passed: a list of results,
  or an exception.
\<close>

record yolo_model =
  names :: "int \<rightharpoonup> string"
  predict :: "image \<Rightarrow> rat option \<Rightarrow> string + yolo_result list"

text \<open>The calls that leave the program, as the log of the world records them.\<close>

datatype call =
    OsPathExists string
  | YoloOpen string
  | ModelCall image "rat option"
  | FileWrite string
  | MakeDirs string
  | OpenWrite string

text \<open>
  The world outside the program. The clock answers its \<open>n\<close>-th reading with
  \<open>clock_time n\<close> (for \<^verbatim>\<open>time.time()\<close>) or \<open>clock_datetime n\<close> (for
  \<^verbatim>\<open>datetime.now()\<close>); \<open>readings\<close> counts the readings made so far. \<open>files\<close> are the
  regular files with their contents and \<open>dirs\<close> the directories. \<open>YOLO\<close> is the
  constructor of the library on the contents of a model file, \<open>imdecode\<close> the codec.
  \<open>os_error\<close> says which calls of the operating system fail, and with what message;
  \<open>short_write\<close> is the number of bytes that reach the file when a write fails.
  \<open>calls\<close> is the log of the calls made so far, oldest first.
\<close>

record world =
  clock_time :: "nat \<Rightarrow> rat"
  clock_datetime :: "nat \<Rightarrow> datetime"
  readings :: nat
  cwd :: string
  files :: "string \<rightharpoonup> bytes"
  dirs :: "string set"
  YOLO :: "bytes \<Rightarrow> string + yolo_model"
  imdecode :: "bytes \<Rightarrow> image option"
  os_error :: "call \<Rightarrow> string option"
  short_write :: nat
  calls :: "call list"

definition time_time :: "world \<Rightarrow> rat \<times> world" where
  "time_time w = (clock_time w (readings w), w\<lparr>readings := Suc (readings w)\<rparr>)"

definition datetime_now :: "world \<Rightarrow> datetime \<times> world" where
  "datetime_now w = (clock_datetime w (readings w), w\<lparr>readings := Suc (readings w)\<rparr>)"

definition record_call :: "call \<Rightarrow> world \<Rightarrow> world" where
  "record_call c w = w\<lparr>calls := calls w @ [c]\<rparr>"

text \<open>\<^verbatim>\<open>os.path.exists(p)\<close>\<close>

definition os_path_exists :: "world \<Rightarrow> string \<Rightarrow> bool" where
  "os_path_exists w p = (files w p \<noteq> None \<or> p \<in> dirs w)"

definition apostrophe :: string where
  "apostrophe = [CHR 0x27]"

text \<open>\<^verbatim>\<open>YOLO(p)\<close> on a path that exists: a directory is no model file.\<close>

definition yolo_open :: "world \<Rightarrow> string \<Rightarrow> string + yolo_model" where
  "yolo_open w p =
     (case files w p of
        Some data \<Rightarrow> YOLO w data
      | None \<Rightarrow> Inl (''[Errno 21] Is a directory: '' @ apostrophe @ p @ apostrophe))"

section \<open>The detector (yolo\_detector.py)\<close>

record detector =
  model :: "yolo_model option"
  model_loaded :: bool
  last_load_attempt :: "datetime option"
  load_error :: "string option"

text \<open>\<^verbatim>\<open>YOLODetector.__init__\<close>\<close>

definition detector_init :: detector where
  "detector_init =
     \<lparr>model = None, model_loaded = False, last_load_attempt = None, load_error = None\<rparr>"

text \<open>
  \<^verbatim>\<open>model_path or "best.pt"\<close>: the default stands in for \<^verbatim>\<open>None\<close> and for the
  empty string.
\<close>

definition or_default :: "string option \<Rightarrow> string \<Rightarrow> string" where
  "or_default path dflt = (case path of None \<Rightarrow> dflt | Some p \<Rightarrow> if p = [] then dflt else p)"

text \<open>
  \<^verbatim>\<open>YOLODetector.load_model(model_path=None)\<close>. The whole body is inside one
  \<^verbatim>\<open>try\<close>, whose handler stores the message and returns \<^verbatim>\<open>False\<close>; the fields
  assigned before the exception keep their new values. No branch assigns \<^verbatim>\<open>False\<close>
  to \<^verbatim>\<open>model_loaded\<close>. The size of the file is read for the log only, and what is
  written to the log is left out.
\<close>

definition load_model :: "string option \<Rightarrow> world \<Rightarrow> detector \<Rightarrow> bool \<times> detector \<times> world" where
  "load_model path w d =
     (let model_path = or_default path ''best.pt'';
          (t, w1) = datetime_now w;
          d1 = d\<lparr>last_load_attempt := Some t\<rparr>;
          w2 = record_call (OsPathExists model_path) w1
      in if \<not> os_path_exists w2 model_path then
           (False,
            d1\<lparr>load_error := Some (''YOLO model file '' @ apostrophe @ model_path @ apostrophe
                                     @ '' not found in '' @ cwd w2)\<rparr>,
            w2)
         else
           let w3 = record_call (YoloOpen model_path) w2 in
           (case yolo_open w3 model_path of
              Inl e \<Rightarrow> (False, d1\<lparr>load_error := Some (''Error loading YOLO model: '' @ e)\<rparr>, w3)
            | Inr m \<Rightarrow>
                let d2 = d1\<lparr>model := Some m\<rparr>;
                    w4 = record_call (ModelCall dummy_image None) w3
                in (case predict m dummy_image None of
                      Inl e \<Rightarrow>
                        (False, d2\<lparr>load_error := Some (''Error loading YOLO model: '' @ e)\<rparr>, w4)
                    | Inr test_results \<Rightarrow>
                        (True, d2\<lparr>model_loaded := True, load_error := None\<rparr>, w4))))"

text \<open>
  One detection of the answer: the dict built for each box, with its nested
  \<^verbatim>\<open>bounding_box\<close> dict.
\<close>

record bbox =
  x1 :: int
  y1 :: int
  x2 :: int
  y2 :: int
  width :: int
  height :: int

record detection =
  object :: string
  confidence :: pyfloat
  bounding_box :: bbox

text \<open>The dict \<^verbatim>\<open>image_dimensions\<close> (keys \<^verbatim>\<open>width\<close> and \<^verbatim>\<open>height\<close>).\<close>

record dimensions =
  dim_width :: nat
  dim_height :: nat

text \<open>The dict that \<^verbatim>\<open>detect_objects\<close> returns on success.\<close>

record detection_result =
  total_objects :: nat
  objects_detected :: "detection list"
  image_dimensions :: dimensions

text \<open>Sequencing of steps that may raise: the first exception ends the sequence.\<close>

definition and_then :: "string + 'a \<Rightarrow> ('a \<Rightarrow> string + 'b) \<Rightarrow> string + 'b" where
  "and_then r f = (case r of Inl e \<Rightarrow> Inl e | Inr v \<Rightarrow> f v)"

text \<open>
  The body of the inner loop of \<^verbatim>\<open>detect_objects\<close>: the dict \<^verbatim>\<open>detection_info\<close>
  of one box, its entries evaluated in the order of the source.
\<close>

definition detection_info :: "yolo_model \<Rightarrow> raw_box \<Rightarrow> string + detection" where
  "detection_info m box =
     (let confidence = conf box in
      and_then (int_of_float (cls box)) (\<lambda>class_id.
        let class_name = (case names m class_id of
                            Some n \<Rightarrow> n
                          | None \<Rightarrow> ''class_'' @ str_int class_id);
            (bx1, by1, bx2, by2) = xyxy box;
            percent = round_ndigits (float_times_100 confidence) 1
        in and_then (round_float bx1) (\<lambda>rx1.
           and_then (round_float by1) (\<lambda>ry1.
           and_then (round_float bx2) (\<lambda>rx2.
           and_then (round_float by2) (\<lambda>ry2.
           and_then (round_float (float_sub bx2 bx1)) (\<lambda>w.
           and_then (round_float (float_sub by2 by1)) (\<lambda>h.
             Inr \<lparr>object = class_name, confidence = percent,
                  bounding_box = \<lparr>x1 = rx1, y1 = ry1, x2 = rx2, y2 = ry2,
                                  width = w, height = h\<rparr>\<rparr>))))))))"

text \<open>
  \<^verbatim>\<open>for box in result.boxes\<close>, on the two accumulators \<^verbatim>\<open>detections\<close> and
  \<^verbatim>\<open>total_objects\<close>.
\<close>

fun boxes_loop ::
  "yolo_model \<Rightarrow> raw_box list \<Rightarrow> detection list \<times> nat \<Rightarrow> string + detection list \<times> nat" where
  "boxes_loop m [] acc = Inr acc"
| "boxes_loop m (box # rest) (detections, total_count) =
     (case detection_info m box of
        Inl e \<Rightarrow> Inl e
      | Inr info \<Rightarrow> boxes_loop m rest (detections @ [info], total_count + 1))"

text \<open>\<^verbatim>\<open>for result in results\<close>, which skips a result whose boxes are \<^verbatim>\<open>None\<close>.\<close>

fun results_loop ::
  "yolo_model \<Rightarrow> yolo_result list \<Rightarrow> detection list \<times> nat \<Rightarrow> string + detection list \<times> nat" where
  "results_loop m [] acc = Inr acc"
| "results_loop m (None # rest) acc = results_loop m rest acc"
| "results_loop m (Some boxes # rest) acc =
     (case boxes_loop m boxes acc of
        Inl e \<Rightarrow> Inl e
      | Inr acc' \<Rightarrow> results_loop m rest acc')"

text \<open>
  \<^verbatim>\<open>YOLODetector.detect_objects(image_data)\<close> returns a pair: the result dict or
  \<^verbatim>\<open>None\<close>, and an error message or \<^verbatim>\<open>None\<close>. Everything after the first test is
  inside one \<^verbatim>\<open>try\<close>, whose handler returns \<^verbatim>\<open>None\<close> and the message prefixed
  with \<^verbatim>\<open>Detection error:\<close>. \<^verbatim>\<open>cv2.imdecode\<close> raises on an empty buffer and returns
  \<^verbatim>\<open>None\<close> on one it cannot decode; calling a model that is \<^verbatim>\<open>None\<close> raises a
  TypeError. (The exact text of the two messages depends on the library version.)
\<close>

definition detect_objects ::
  "bytes \<Rightarrow> world \<Rightarrow> detector \<Rightarrow> (detection_result option \<times> string option) \<times> world" where
  "detect_objects image_data w d =
     (if \<not> model_loaded d then ((None, Some ''YOLO model not loaded''), w)
      else if image_data = [] then
        ((None, Some (''Detection error: '' @
                      ''(-215:Assertion failed) !buf.empty() in function imdecode_'')), w)
      else
        (case imdecode w image_data of
           None \<Rightarrow> ((None, Some ''Failed to decode image''), w)
         | Some img \<Rightarrow>
             (case model d of
                None \<Rightarrow>
                  ((None, Some (''Detection error: '' @ apostrophe @ ''NoneType'' @ apostrophe
                                @ '' object is not callable'')), w)
              | Some m \<Rightarrow>
                  let w1 = record_call (ModelCall img (Some (3 / 10))) w in
                  (case predict m img (Some (3 / 10)) of
                     Inl e \<Rightarrow> ((None, Some (''Detection error: '' @ e)), w1)
                   | Inr results \<Rightarrow>
                       (case results_loop m results ([], 0) of
                          Inl e \<Rightarrow> ((None, Some (''Detection error: '' @ e)), w1)
                        | Inr (detections, total_count) \<Rightarrow>
                            ((Some \<lparr>total_objects = total_count,
                                    objects_detected = detections,
                                    image_dimensions =
                                      \<lparr>dim_width = shape1 img, dim_height = shape0 img\<rparr>\<rparr>,
                              None), w1))))))"

text \<open>\<^verbatim>\<open>initialize_yolo()\<close>: one call of \<^verbatim>\<open>load_model\<close> with the default path.\<close>

definition initialize_yolo :: "world \<Rightarrow> detector \<Rightarrow> bool \<times> detector \<times> world" where
  "initialize_yolo w d = load_model None w d"

section \<open>The HTTP handlers (main.py)\<close>

text \<open>\<^verbatim>\<open>round(time.time() - start_time, 3)\<close>\<close>

definition elapsed :: "rat \<Rightarrow> rat \<Rightarrow> json" where
  "elapsed start_time t = JFloat (round_ndigits (Finite (t - start_time)) 3)"

text \<open>
  The error answer that all the checks share: the status, the message and the
  processing time, with the clock read when the dict is built.
\<close>

definition error_response :: "nat \<Rightarrow> string \<Rightarrow> rat \<Rightarrow> world \<Rightarrow> response \<times> world" where
  "error_response code msg start_time w =
     (let (t, w1) = time_time w
      in (\<lparr>status_code = code,
           content = JDict [(''status'', JStr ''error''),
                            (''error'', JStr msg),
                            (''processing_time'', elapsed start_time t)]\<rparr>, w1))"

text \<open>
  \<^verbatim>\<open>startswith\<close> and \<^verbatim>\<open>endswith\<close> of a bytes object; the handlers ask for the
  two bytes FF D8 at the start and the two bytes FF D9 at the end.
\<close>

definition startswith :: "bytes \<Rightarrow> bytes \<Rightarrow> bool" where
  "startswith data p = (take (length p) data = p)"

definition endswith :: "bytes \<Rightarrow> bytes \<Rightarrow> bool" where
  "endswith data p = (length p \<le> length data \<and> drop (length data - length p) data = p)"

definition jpeg_bracketed :: "bytes \<Rightarrow> bool" where
  "jpeg_bracketed data = (startswith data [0xFF, 0xD8] \<and> endswith data [0xFF, 0xD9])"

text \<open>\<^verbatim>\<open>round(image_size / 1024, 1)\<close>\<close>

definition size_kb :: "nat \<Rightarrow> json" where
  "size_kb image_size = JFloat (round_ndigits (Finite (of_nat image_size / 1024)) 1)"

definition bbox_json :: "bbox \<Rightarrow> json" where
  "bbox_json b =
     JDict [(''x1'', JInt (x1 b)), (''y1'', JInt (y1 b)), (''x2'', JInt (x2 b)),
            (''y2'', JInt (y2 b)), (''width'', JInt (width b)), (''height'', JInt (height b))]"

definition detection_json :: "detection \<Rightarrow> json" where
  "detection_json det =
     JDict [(''object'', JStr (object det)),
            (''confidence'', JFloat (confidence det)),
            (''bounding_box'', bbox_json (bounding_box det))]"

definition dimensions_json :: "dimensions \<Rightarrow> json" where
  "dimensions_json dm =
     JDict [(''width'', JInt (int (dim_width dm))), (''height'', JInt (int (dim_height dm)))]"

text \<open>
  \<^verbatim>\<open>POST /yolo-detect\<close>. The handler first makes sure of the model, with one call of
  \<^verbatim>\<open>load_model()\<close> if none is loaded, and answers 503 if that fails; only then it
  reads and checks the body. \<^verbatim>\<open>if error:\<close> holds for a message that is neither
  \<^verbatim>\<open>None\<close> nor empty. The whole body is inside one \<^verbatim>\<open>try\<close>, whose handler answers
  500: subscripting a result that is \<^verbatim>\<open>None\<close> raises, and so does
  \<^verbatim>\<open>JSONResponse\<close> on a float that is not finite.
\<close>

definition yolo_detect_objects ::
  "bytes \<Rightarrow> world \<Rightarrow> detector \<Rightarrow> response \<times> detector \<times> world" where
  "yolo_detect_objects image_data w d =
     (let (start_time, wa) = time_time w;
          (request_time, wb) = datetime_now wa;
          (available, d1, w1) =
            (if \<not> model_loaded d then load_model None wb d else (True, d, wb))
      in if \<not> available then
           let (t, w2) = time_time w1 in
           (\<lparr>status_code = 503,
             content = JDict
               [(''status'', JStr ''error''),
                (''error'', JStr ''YOLO model not loaded''),
                (''details'', JStr (case load_error d1 of
                                     None \<Rightarrow> ''Unknown model loading error''
                                   | Some e \<Rightarrow>
                                       if e = [] then ''Unknown model loading error'' else e)),
                (''last_attempt'', (case last_load_attempt d1 of
                                     None \<Rightarrow> JNull
                                   | Some a \<Rightarrow> JStr (isoformat a))),
                (''processing_time'', elapsed start_time t)]\<rparr>, d1, w2)
         else
           let image_size = length image_data in
           if image_size < 1000 then
             let (r, w2) = error_response 400 ''Image too small - minimum 1KB required''
                             start_time w1
             in (r, d1, w2)
           else if image_size > 10 * 1024 * 1024 then
             let (r, w2) = error_response 413 ''Image too large - maximum 10MB allowed''
                             start_time w1
             in (r, d1, w2)
           else if \<not> jpeg_bracketed image_data then
             let (r, w2) = error_response 400 ''Invalid JPEG format'' start_time w1
             in (r, d1, w2)
           else
             let (detection_start, w2) = time_time w1;
                 ((detection_results, error), w3) = detect_objects image_data w2 d1;
                 (detection_end, w4) = time_time w3;
                 detection_time = elapsed detection_start detection_end
             in if error \<noteq> None \<and> error \<noteq> Some [] then
                  let (r, w5) = error_response 500 (the error) start_time w4
                  in (r, d1, w5)
                else
                  let (t, w5) = time_time w4 in
                  (case detection_results of
                     None \<Rightarrow>
                       let (r, w6) = error_response 500
                                       (''YOLO detection error: '' @ apostrophe @ ''NoneType''
                                        @ apostrophe @ '' object is not subscriptable'')
                                       start_time w5
                       in (r, d1, w6)
                   | Some res \<Rightarrow>
                       if \<not> list_all (\<lambda>det. is_finite (confidence det))
                                 (objects_detected res) then
                         let (r, w6) = error_response 500
                                         (''YOLO detection error: '' @
                                          ''Out of range float values are not JSON compliant'')
                                         start_time w5
                         in (r, d1, w6)
                       else
                         (\<lparr>status_code = 200,
                           content = JDict
                             [(''status'', JStr ''success''),
                              (''message'', JStr ''YOLO detection completed successfully''),
                              (''image_info'', JDict
                                 [(''size_bytes'', JInt (int image_size)),
                                  (''size_kb'', size_kb image_size),
                                  (''dimensions'', dimensions_json (image_dimensions res)),
                                  (''format'', JStr ''JPEG'')]),
                              (''detection_results'', JDict
                                 [(''total_objects'', JInt (int (total_objects res))),
                                  (''objects_detected'',
                                     JList (map detection_json (objects_detected res))),
                                  (''detection_time'', detection_time)]),
                              (''processing_time'', elapsed start_time t),
                              (''server_timestamp'', JStr (isoformat request_time))]\<rparr>,
                          d1, w5)))"

text \<open>
  \<^verbatim>\<open>os.makedirs(p)\<close>: the directory exists afterwards, unless the call fails.
\<close>

definition os_makedirs :: "string \<Rightarrow> world \<Rightarrow> string option \<times> world" where
  "os_makedirs p w =
     (let w1 = record_call (MakeDirs p) w
      in case os_error w1 (MakeDirs p) of
           Some e \<Rightarrow> (Some e, w1)
         | None \<Rightarrow> (None, w1\<lparr>dirs := insert p (dirs w1)\<rparr>))"

text \<open>
  \<^verbatim>\<open>with open(dir/name, 'wb') as f: f.write(data)\<close>. Opening fails when the
  directory is none or the path is one, or when the system says so; it empties the
  file otherwise. A write that fails leaves the first \<open>short_write\<close> bytes.
\<close>

definition write_file :: "string \<Rightarrow> string \<Rightarrow> bytes \<Rightarrow> world \<Rightarrow> string option \<times> world" where
  "write_file dir name data w =
     (let p = dir @ ''/'' @ name;
          w1 = record_call (OpenWrite p) w
      in if dir \<notin> dirs w1 then
           (Some (''[Errno 20] Not a directory: '' @ apostrophe @ p @ apostrophe), w1)
         else if p \<in> dirs w1 then
           (Some (''[Errno 21] Is a directory: '' @ apostrophe @ p @ apostrophe), w1)
         else
           (case os_error w1 (OpenWrite p) of
              Some e \<Rightarrow> (Some e, w1)
            | None \<Rightarrow>
                let w2 = record_call (FileWrite p) w1 in
                (case os_error w2 (FileWrite p) of
                   Some e \<Rightarrow> (Some e, w2\<lparr>files := (files w2)(p \<mapsto> take (short_write w2) data)\<rparr>)
                 | None \<Rightarrow> (None, w2\<lparr>files := (files w2)(p \<mapsto> data)\<rparr>))))"

text \<open>Reading a file back: \<^verbatim>\<open>open(p, 'rb').read()\<close>.\<close>

definition read_file :: "world \<Rightarrow> string \<Rightarrow> bytes option" where
  "read_file w p = files w p"

text \<open>
  \<^verbatim>\<open>POST /upload-image\<close>: the body is checked, then written to
  \<^verbatim>\<open>received_images/esp32_image_<timestamp>.jpg\<close>, the directory being made if
  nothing of that name exists. An exception anywhere is answered by 500.
\<close>

definition upload_image_direct :: "bytes \<Rightarrow> world \<Rightarrow> response \<times> world" where
  "upload_image_direct image_data w =
     (let (start_time, wa) = time_time w;
          (request_time, wb) = datetime_now wa;
          image_size = length image_data
      in if image_size < 1000 then
           error_response 400 ''Image too small - minimum 1KB required'' start_time wb
         else if image_size > 5 * 1024 * 1024 then
           error_response 413 ''Image too large - maximum 5MB allowed'' start_time wb
         else if \<not> jpeg_bracketed image_data then
           error_response 400 ''Invalid JPEG format'' start_time wb
         else
           let (now, w1) = datetime_now wb;
               timestamp = strftime now;
               filename = ''esp32_image_'' @ timestamp @ ''.jpg'';
               save_dir = ''received_images'';
               w2 = record_call (OsPathExists save_dir) w1;
               (made, w3) = (if \<not> os_path_exists w2 save_dir then os_makedirs save_dir w2
                             else (None, w2))
           in (case made of
                 Some e \<Rightarrow> error_response 500 (''Save error: '' @ e) start_time w3
               | None \<Rightarrow>
                   let file_path = save_dir @ ''/'' @ filename;
                       (written, w4) = write_file save_dir filename image_data w3
                   in (case written of
                         Some e \<Rightarrow> error_response 500 (''Save error: '' @ e) start_time w4
                       | None \<Rightarrow>
                           let (t, w5) = time_time w4 in
                           (\<lparr>status_code = 200,
                             content = JDict
                               [(''status'', JStr ''success''),
                                (''message'', JStr ''Image received and saved successfully''),
                                (''image_info'', JDict
                                   [(''filename'', JStr filename),
                                    (''size_bytes'', JInt (int image_size)),
                                    (''size_kb'', size_kb image_size),
                                    (''format'', JStr ''JPEG'')]),
                                (''processing_time'', elapsed start_time t),
                                (''server_timestamp'', JStr (isoformat request_time)),
                                (''saved_to'', JStr file_path)]\<rparr>, w5))))"

section \<open>The detectors of a running server\<close>

text \<open>
  The detector is a module-level object, created by \<^verbatim>\<open>YOLODetector()\<close>. The start
  script may call \<^verbatim>\<open>initialize_yolo()\<close> on it once; after that it is changed only by
  the requests to \<^verbatim>\<open>/yolo-detect\<close>, in whatever world each of them finds.
\<close>

inductive served :: "detector \<Rightarrow> bool" where
  created: "served detector_init"
| initialized: "served (fst (snd (initialize_yolo w detector_init)))"
| requested: "served d \<Longrightarrow> served (fst (snd (yolo_detect_objects body w d)))"

section \<open>What the model emitted\<close>

text \<open>
  The boxes of a list of results, in the order in which the two loops of
  \<^verbatim>\<open>detect_objects\<close> visit them: the detections that the model emitted.
\<close>

fun emitted_boxes :: "yolo_result list \<Rightarrow> raw_box list" where
  "emitted_boxes [] = []"
| "emitted_boxes (None # rest) = emitted_boxes rest"
| "emitted_boxes (Some boxes # rest) = boxes @ emitted_boxes rest"




section \<open>Reading the log\<close>

text \<open>
  \<^verbatim>\<open>load_model\<close> asks \<^verbatim>\<open>os.path.exists\<close> for the model file once each time it runs,
  and the detection handler asks for no path itself: the path checks in its log are
  its load attempts. The calls of a model are its inferences.
\<close>

fun is_path_check :: "call \<Rightarrow> bool" where
  "is_path_check (OsPathExists p) = True"
| "is_path_check c = False"


section \<open>Example inputs\<close>

definition example_time :: datetime where
  "example_time =
     \<lparr>year = 2024, month = 5, day = 17, hour = 9, minute = 30, second = 12,
      microsecond = 250000\<rparr>"

definition carrot_box :: raw_box where
  "carrot_box =
     \<lparr>conf = Finite (87 / 100), cls = Finite 0,
      xyxy = (Finite (1 / 2), Finite 10, Finite (3 / 2), Finite 52)\<rparr>"

text \<open>A model that finds one carrot in an image whose first pixel is 1, and nothing else.\<close>

definition carrot_model :: yolo_model where
  "carrot_model =
     \<lparr>names = [0 \<mapsto> ''carrot''],
      predict = (\<lambda>img c. if pixel img 0 0 0 = 1 then Inr [Some [carrot_box]]
                         else Inr [None, Some []])\<rparr>"

text \<open>A model that parses and cannot run.\<close>

definition broken_model :: yolo_model where
  "broken_model = \<lparr>names = Map.empty, predict = (\<lambda>img c. Inl ''CUDA error'')\<rparr>"

text \<open>
  A world with the given files and no directory, whose clock stands still at
  \<open>example_time\<close>. The file contents \<open>[1]\<close> and \<open>[2]\<close> stand for the two models
  above; the codec refuses a body whose third byte is 0 and otherwise returns an
  image filled with that byte.
\<close>

definition example_world :: "(string \<rightharpoonup> bytes) \<Rightarrow> world" where
  "example_world fs =
     \<lparr>clock_time = (\<lambda>n. of_nat n / 4),
      clock_datetime = (\<lambda>n. example_time),
      readings = 0,
      cwd = ''/srv/app'',
      files = fs,
      dirs = {},
      YOLO = (\<lambda>data. if data = [1] then Inr carrot_model
                      else if data = [2] then Inr broken_model
                      else Inl ''invalid load key''),
      imdecode = (\<lambda>data. if data ! 2 = 0 then None
                          else Some \<lparr>shape0 = 480, shape1 = 640,
                                     pixel = (\<lambda>i j c. data ! 2)\<rparr>),
      os_error = (\<lambda>c. None),
      short_write = 0,
      calls = []\<rparr>"

text \<open>The same world with a clock whose \<open>n\<close>-th reading is \<open>n\<close> seconds after 9:30.\<close>

definition ticking_world :: "(string \<rightharpoonup> bytes) \<Rightarrow> world" where
  "ticking_world fs =
     (example_world fs)\<lparr>clock_datetime := (\<lambda>n. example_time\<lparr>second := n\<rparr>)\<rparr>"

text \<open>A body of 1000 bytes between the two JPEG markers.\<close>

definition jpeg_body :: "byte \<Rightarrow> bytes" where
  "jpeg_body x = [0xFF, 0xD8] @ replicate 996 x @ [0xFF, 0xD9]"

text \<open>The detector after a first load that succeeded.\<close>

definition loaded_detector :: detector where
  "loaded_detector =
     fst (snd (load_model None (example_world [''best.pt'' \<mapsto> [1]]) detector_init))"

section \<open>The world under the clock and the log\<close>

lemma record_call_simps [simp]:
  "files (record_call c w) = files w"
  "dirs (record_call c w) = dirs w"
  "YOLO (record_call c w) = YOLO w"
  "imdecode (record_call c w) = imdecode w"
  "cwd (record_call c w) = cwd w"
  "os_error (record_call c w) = os_error w"
  "calls (record_call c w) = calls w @ [c]"
  "readings (record_call c w) = readings w"
  "short_write (record_call c w) = short_write w"
  "clock_time (record_call c w) = clock_time w"
  "clock_datetime (record_call c w) = clock_datetime w"
  by (simp_all add: record_call_def)

lemma datetime_now_simps [simp]:
  "fst (datetime_now w) = clock_datetime w (readings w)"
  "calls (snd (datetime_now w)) = calls w"
  "files (snd (datetime_now w)) = files w"
  "dirs (snd (datetime_now w)) = dirs w"
  "cwd (snd (datetime_now w)) = cwd w"
  "YOLO (snd (datetime_now w)) = YOLO w"
  "imdecode (snd (datetime_now w)) = imdecode w"
  "os_error (snd (datetime_now w)) = os_error w"
  "short_write (snd (datetime_now w)) = short_write w"
  "clock_time (snd (datetime_now w)) = clock_time w"
  "clock_datetime (snd (datetime_now w)) = clock_datetime w"
  "readings (snd (datetime_now w)) = Suc (readings w)"
  by (simp_all add: datetime_now_def)

lemma time_time_simps [simp]:
  "fst (time_time w) = clock_time w (readings w)"
  "calls (snd (time_time w)) = calls w"
  "files (snd (time_time w)) = files w"
  "dirs (snd (time_time w)) = dirs w"
  "cwd (snd (time_time w)) = cwd w"
  "YOLO (snd (time_time w)) = YOLO w"
  "imdecode (snd (time_time w)) = imdecode w"
  "os_error (snd (time_time w)) = os_error w"
  "short_write (snd (time_time w)) = short_write w"
  "clock_time (snd (time_time w)) = clock_time w"
  "clock_datetime (snd (time_time w)) = clock_datetime w"
  "readings (snd (time_time w)) = Suc (readings w)"
  by (simp_all add: time_time_def)

lemma os_path_exists_simps [simp]:
  "os_path_exists (record_call c w) p = os_path_exists w p"
  "os_path_exists (snd (datetime_now w)) p = os_path_exists w p"
  "os_path_exists (snd (time_time w)) p = os_path_exists w p"
  by (simp_all add: os_path_exists_def)

lemma yolo_open_simps [simp]:
  "yolo_open (record_call c w) p = yolo_open w p"
  "yolo_open (snd (datetime_now w)) p = yolo_open w p"
  "yolo_open (snd (time_time w)) p = yolo_open w p"
  by (simp_all add: yolo_open_def split: option.split)

section \<open>Loading the model\<close>

text \<open>The four ways through \<open>load_model\<close>, each with the triple it returns.\<close>

lemma load_model_missing:
  assumes "\<not> os_path_exists w (or_default path ''best.pt'')"
  shows "load_model path w d =
           (False,
            d\<lparr>last_load_attempt := Some (clock_datetime w (readings w)),
              load_error := Some (''YOLO model file '' @ apostrophe @ or_default path ''best.pt''
                                  @ apostrophe @ '' not found in '' @ cwd w)\<rparr>,
            record_call (OsPathExists (or_default path ''best.pt'')) (snd (datetime_now w)))"
  using assms by (simp add: load_model_def Let_def split_beta)

lemma load_model_parse_error:
  assumes "os_path_exists w (or_default path ''best.pt'')"
    and "yolo_open w (or_default path ''best.pt'') = Inl e"
  shows "load_model path w d =
           (False,
            d\<lparr>last_load_attempt := Some (clock_datetime w (readings w)),
              load_error := Some (''Error loading YOLO model: '' @ e)\<rparr>,
            record_call (YoloOpen (or_default path ''best.pt''))
              (record_call (OsPathExists (or_default path ''best.pt'')) (snd (datetime_now w))))"
  using assms by (simp add: load_model_def Let_def split_beta)

lemma load_model_smoke_error:
  assumes "os_path_exists w (or_default path ''best.pt'')"
    and "yolo_open w (or_default path ''best.pt'') = Inr m"
    and "predict m dummy_image None = Inl e"
  shows "load_model path w d =
           (False,
            d\<lparr>last_load_attempt := Some (clock_datetime w (readings w)), model := Some m,
              load_error := Some (''Error loading YOLO model: '' @ e)\<rparr>,
            record_call (ModelCall dummy_image None)
              (record_call (YoloOpen (or_default path ''best.pt''))
                (record_call (OsPathExists (or_default path ''best.pt'')) (snd (datetime_now w)))))"
  using assms by (simp add: load_model_def Let_def split_beta)

lemma load_model_success:
  assumes "os_path_exists w (or_default path ''best.pt'')"
    and "yolo_open w (or_default path ''best.pt'') = Inr m"
    and "predict m dummy_image None = Inr r"
  shows "load_model path w d =
           (True,
            d\<lparr>last_load_attempt := Some (clock_datetime w (readings w)), model := Some m,
              model_loaded := True, load_error := None\<rparr>,
            record_call (ModelCall dummy_image None)
              (record_call (YoloOpen (or_default path ''best.pt''))
                (record_call (OsPathExists (or_default path ''best.pt'')) (snd (datetime_now w)))))"
  using assms by (simp add: load_model_def Let_def split_beta)

lemma load_model_cases:
  obtains
    (missing) "\<not> os_path_exists w (or_default path ''best.pt'')"
  | (parse_error) e where "os_path_exists w (or_default path ''best.pt'')"
      "yolo_open w (or_default path ''best.pt'') = Inl e"
  | (smoke_error) m e where "os_path_exists w (or_default path ''best.pt'')"
      "yolo_open w (or_default path ''best.pt'') = Inr m" "predict m dummy_image None = Inl e"
  | (success) m r where "os_path_exists w (or_default path ''best.pt'')"
      "yolo_open w (or_default path ''best.pt'') = Inr m" "predict m dummy_image None = Inr r"
proof (cases "os_path_exists w (or_default path ''best.pt'')")
  case False
  then show ?thesis by (rule missing)
next
  case ex: True
  show ?thesis
  proof (cases "yolo_open w (or_default path ''best.pt'')")
    case (Inl e)
    with ex show ?thesis by (rule parse_error)
  next
    case op: (Inr m)
    show ?thesis
    proof (cases "predict m dummy_image None")
      case (Inl e)
      with ex op show ?thesis by (rule smoke_error)
    next
      case (Inr r)
      with ex op show ?thesis by (rule success)
    qed
  qed
qed

subsection \<open>The example worlds\<close>

lemma example_world_best:
  "os_path_exists (example_world [''best.pt'' \<mapsto> [1]]) ''best.pt''"
  "yolo_open (example_world [''best.pt'' \<mapsto> [1]]) ''best.pt'' = Inr carrot_model"
  "predict carrot_model dummy_image None = Inr [None, Some []]"
  by (simp_all add: os_path_exists_def yolo_open_def example_world_def carrot_model_def
      dummy_image_def)


lemma example_world_empty:
  "\<not> os_path_exists (example_world Map.empty) p"
  by (simp add: os_path_exists_def example_world_def)

lemma example_world_fields [simp]:
  "clock_datetime (example_world fs) n = example_time"
  "clock_time (example_world fs) n = of_nat n / 4"
  "readings (example_world fs) = 0"
  "calls (example_world fs) = []"
  "cwd (example_world fs) = ''/srv/app''"
  "files (example_world fs) = fs"
  "dirs (example_world fs) = {}"
  "os_error (example_world fs) c = None"
  by (simp_all add: example_world_def)

lemma or_default_simps [simp]:
  "or_default None dflt = dflt"
  "or_default (Some []) dflt = dflt"
  "p \<noteq> [] \<Longrightarrow> or_default (Some p) dflt = p"
  by (simp_all add: or_default_def)

lemma load_example_best:
  "load_model None (example_world [''best.pt'' \<mapsto> [1]]) detector_init =
     (True,
      \<lparr>model = Some carrot_model, model_loaded = True,
       last_load_attempt = Some example_time, load_error = None\<rparr>,
      record_call (ModelCall dummy_image None)
        (record_call (YoloOpen ''best.pt'')
          (record_call (OsPathExists ''best.pt'')
            (snd (datetime_now (example_world [''best.pt'' \<mapsto> [1]]))))))"
  using load_model_success [of "example_world [''best.pt'' \<mapsto> [1]]" None carrot_model
      "[None, Some []]" detector_init]
  by (simp add: example_world_best detector_init_def)

lemma loaded_detector_eq:
  "loaded_detector =
     \<lparr>model = Some carrot_model, model_loaded = True,
      last_load_attempt = Some example_time, load_error = None\<rparr>"
  by (simp add: loaded_detector_def load_example_best)

subsection \<open>The state after a load\<close>

text \<open>
  Claim C3, as corrected. Every call of \<open>load_model\<close> records the time of the attempt.
  When it returns \<open>True\<close> the detector is loaded and its error message is cleared. When
  it returns \<open>False\<close>, whatever the reason (file missing, parse failure, smoke test
  failure), a message that is not empty is recorded, and the flag \<open>model_loaded\<close> is
  what it was before the call: \<open>False\<close> when the call was made on a detector that was
  not loaded, as every call of the server is, and still \<open>True\<close> after a load that
  succeeded earlier.
\<close>

theorem load_model_state:
  assumes "load_model path w d = (ok, d', w')"
  shows "last_load_attempt d' = Some (clock_datetime w (readings w)) \<and>
         (ok \<longrightarrow> model_loaded d' \<and> load_error d' = None) \<and>
         (\<not> ok \<longrightarrow> (\<exists>msg. load_error d' = Some msg \<and> msg \<noteq> []) \<and>
                   model_loaded d' = model_loaded d)"
proof (cases rule: load_model_cases [of w path])
  case missing
  from load_model_missing [OF missing, of d] assms show ?thesis
    by auto
next
  case (parse_error e)
  from load_model_parse_error [OF parse_error, of d] assms show ?thesis
    by auto
next
  case (smoke_error m e)
  from load_model_smoke_error [OF smoke_error, of d] assms show ?thesis
    by auto
next
  case (success m r)
  from load_model_success [OF success, of d] assms show ?thesis
    by auto
qed

text \<open>
  The theorem at a first load with no model file: the call fails, the detector is not
  loaded, and both the message and the time of the attempt are recorded.
\<close>

theorem load_model_state_witness:
  "fst (load_model None (example_world Map.empty) detector_init) = False \<and>
   last_load_attempt (fst (snd (load_model None (example_world Map.empty) detector_init)))
     = Some example_time \<and>
   (\<exists>msg. load_error (fst (snd (load_model None (example_world Map.empty) detector_init)))
            = Some msg \<and> msg \<noteq> []) \<and>
   model_loaded (fst (snd (load_model None (example_world Map.empty) detector_init))) = False"
proof -
  have failed: "fst (load_model None (example_world Map.empty) detector_init) = False"
    by (simp add: load_model_missing example_world_empty)
  have "load_model None (example_world Map.empty) detector_init =
          (fst (load_model None (example_world Map.empty) detector_init),
           fst (snd (load_model None (example_world Map.empty) detector_init)),
           snd (snd (load_model None (example_world Map.empty) detector_init)))"
    by simp
  from load_model_state [OF this] failed show ?thesis
    by (simp add: detector_init_def)
qed

text \<open>
  Claim C3 as it is stated fails: a load that fails after one that succeeded leaves
  the detector loaded. Here the first load finds the model file and the second, in
  the world that the first has left, is asked for a file that does not exist.
\<close>

theorem load_failure_keeps_loaded:
  "fst (load_model None (example_world [''best.pt'' \<mapsto> [1]]) detector_init) = True \<and>
   loaded_detector
     = fst (snd (load_model None (example_world [''best.pt'' \<mapsto> [1]]) detector_init)) \<and>
   model_loaded loaded_detector = True \<and>
   fst (load_model (Some ''missing.pt'')
          (snd (snd (load_model None (example_world [''best.pt'' \<mapsto> [1]]) detector_init)))
          loaded_detector) = False \<and>
   model_loaded
     (fst (snd (load_model (Some ''missing.pt'')
                  (snd (snd (load_model None (example_world [''best.pt'' \<mapsto> [1]])
                               detector_init)))
                  loaded_detector))) = True"
proof -
  let ?w1 = "snd (snd (load_model None (example_world [''best.pt'' \<mapsto> [1]]) detector_init))"
  have "\<not> os_path_exists ?w1 (or_default (Some ''missing.pt'') ''best.pt'')"
    by (simp add: load_example_best) (simp add: os_path_exists_def)
  from load_model_missing [OF this, of loaded_detector] show ?thesis
    by (simp add: loaded_detector_eq load_example_best)
qed

subsection \<open>The smoke test\<close>



text \<open>What every call of \<open>load_model\<close> does to the log and to the time of the attempt.\<close>

lemma load_model_path_checks:
  "\<exists>evs. calls (snd (snd (load_model path w d))) = calls w @ evs \<and>
         filter is_path_check evs = [OsPathExists (or_default path ''best.pt'')]"
proof (cases rule: load_model_cases [of w path])
  case missing
  from load_model_missing [OF missing, of d] show ?thesis by simp
next
  case (parse_error e)
  from load_model_parse_error [OF parse_error, of d] show ?thesis by simp
next
  case (smoke_error m e)
  from load_model_smoke_error [OF smoke_error, of d] show ?thesis by simp
next
  case (success m r)
  from load_model_success [OF success, of d] show ?thesis by simp
qed

lemma load_model_attempt_recorded:
  "last_load_attempt (fst (snd (load_model path w d))) = Some (clock_datetime w (readings w))"
proof (cases rule: load_model_cases [of w path])
  case missing
  from load_model_missing [OF missing, of d] show ?thesis by simp
next
  case (parse_error e)
  from load_model_parse_error [OF parse_error, of d] show ?thesis by simp
next
  case (smoke_error m e)
  from load_model_smoke_error [OF smoke_error, of d] show ?thesis by simp
next
  case (success m r)
  from load_model_success [OF success, of d] show ?thesis by simp
qed

section \<open>The detection handler before the detection\<close>

lemma error_response_simps [simp]:
  "fst (error_response code msg st w) =
     \<lparr>status_code = code,
      content = JDict [(''status'', JStr ''error''), (''error'', JStr msg),
                       (''processing_time'', elapsed st (clock_time w (readings w)))]\<rparr>"
  "snd (error_response code msg st w) = snd (time_time w)"
  by (simp_all add: error_response_def split_beta)

lemma detector_init_simps [simp]:
  "model_loaded detector_init = False"
  "model detector_init = None"
  "load_error detector_init = None"
  "last_load_attempt detector_init = None"
  by (simp_all add: detector_init_def)

lemma isoformat_example_time: "isoformat example_time = ''2024-05-17T09:30:12.250000''"
  by (simp add: isoformat_def example_time_def zero_pad_def str_nat.simps digit_char_def)

lemma strftime_example_time: "strftime example_time = ''20240517_093012''"
  by (simp add: strftime_def example_time_def zero_pad_def str_nat.simps digit_char_def)

lemma detect_objects_calls:
  "\<exists>evs. calls (snd (detect_objects body w d)) = calls w @ evs \<and> filter is_path_check evs = []"
  by (simp add: detect_objects_def Let_def split: option.split sum.split prod.split)

lemma yolo_detect_calls:
  "\<exists>evs. calls (snd (snd (yolo_detect_objects body w d))) =
          calls (snd (snd (if \<not> model_loaded d
                           then load_model None (snd (datetime_now (snd (time_time w)))) d
                           else (True, d, snd (datetime_now (snd (time_time w)))))))
          @ evs \<and> filter is_path_check evs = []"
proof -
  obtain ok d1 w1 where a: "(if \<not> model_loaded d
                           then load_model None (snd (datetime_now (snd (time_time w)))) d
                           else (True, d, snd (datetime_now (snd (time_time w))))) = (ok, d1, w1)"
    by (metis prod_cases3)
  obtain evs where e: "calls (snd (detect_objects body (snd (time_time w1)) d1))
                         = calls (snd (time_time w1)) @ evs" "filter is_path_check evs = []"
    using detect_objects_calls by blast
  show ?thesis
    unfolding a using e
    by (simp add: yolo_detect_objects_def Let_def split_beta a split: option.split)
qed

lemma yolo_detect_unavailable:
  assumes "\<not> model_loaded d"
    and "load_model None (snd (datetime_now (snd (time_time w)))) d = (False, d1, w1)"
  shows "yolo_detect_objects body w d =
           (\<lparr>status_code = 503,
             content = JDict
               [(''status'', JStr ''error''),
                (''error'', JStr ''YOLO model not loaded''),
                (''details'', JStr (case load_error d1 of
                                     None \<Rightarrow> ''Unknown model loading error''
                                   | Some e \<Rightarrow>
                                       if e = [] then ''Unknown model loading error'' else e)),
                (''last_attempt'', (case last_load_attempt d1 of
                                     None \<Rightarrow> JNull
                                   | Some a \<Rightarrow> JStr (isoformat a))),
                (''processing_time'', elapsed (clock_time w (readings w))
                                         (clock_time w1 (readings w1)))]\<rparr>,
            d1, snd (time_time w1))"
  using assms by (simp add: yolo_detect_objects_def Let_def split_beta)

lemma yolo_detect_too_small:
  assumes "(if \<not> model_loaded d then load_model None (snd (datetime_now (snd (time_time w)))) d
            else (True, d, snd (datetime_now (snd (time_time w))))) = (True, d1, w1)"
    and "length body < 1000"
  shows "yolo_detect_objects body w d =
           (\<lparr>status_code = 400,
             content = JDict [(''status'', JStr ''error''),
                              (''error'', JStr ''Image too small - minimum 1KB required''),
                              (''processing_time'', elapsed (clock_time w (readings w))
                                                       (clock_time w1 (readings w1)))]\<rparr>,
            d1, snd (time_time w1))"
  using assms by (simp add: yolo_detect_objects_def Let_def split_beta)

lemma upload_too_small:
  assumes "length body < 1000"
  shows "upload_image_direct body w =
           (\<lparr>status_code = 400,
             content = JDict [(''status'', JStr ''error''),
                              (''error'', JStr ''Image too small - minimum 1KB required''),
                              (''processing_time'', elapsed (clock_time w (readings w))
                                                       (clock_time w (Suc (Suc (readings w)))))]\<rparr>,
            snd (time_time (snd (datetime_now (snd (time_time w))))))"
  using assms by (simp add: upload_image_direct_def Let_def split_beta prod_eq_iff)

lemma yolo_detect_example_unavailable:
  "yolo_detect_objects body (example_world Map.empty) detector_init =
     (\<lparr>status_code = 503,
       content = JDict
         [(''status'', JStr ''error''),
          (''error'', JStr ''YOLO model not loaded''),
          (''details'', JStr (''YOLO model file '' @ apostrophe @ ''best.pt'' @ apostrophe
                              @ '' not found in /srv/app'')),
          (''last_attempt'', JStr ''2024-05-17T09:30:12.250000''),
          (''processing_time'', JFloat (Finite (3 / 4)))]\<rparr>,
      detector_init\<lparr>last_load_attempt := Some example_time,
        load_error := Some (''YOLO model file '' @ apostrophe @ ''best.pt'' @ apostrophe
                            @ '' not found in /srv/app'')\<rparr>,
      snd (time_time (record_call (OsPathExists ''best.pt'')
        (snd (datetime_now (snd (datetime_now (snd (time_time (example_world Map.empty))))))))))"
proof -
  let ?wb = "snd (datetime_now (snd (time_time (example_world Map.empty))))"
  have nl: "\<not> model_loaded detector_init"
    by simp
  have "\<not> os_path_exists ?wb (or_default None ''best.pt'')"
    by (simp add: example_world_empty)
  from yolo_detect_unavailable [OF nl load_model_missing [OF this]]
  show ?thesis
    by (simp add: isoformat_example_time apostrophe_def elapsed_def py_round_def)
qed

subsection \<open>The lazy reload\<close>

text \<open>
  Claim C2. A request to \<^verbatim>\<open>/yolo-detect\<close> that arrives when no model is loaded makes
  exactly one load attempt: its part of the log holds one path check, that of
  \<^verbatim>\<open>best.pt\<close>, whatever the request goes on to do. If that attempt fails, the answer
  is 503, its \<^verbatim>\<open>error\<close> is the string \<^verbatim>\<open>YOLO model not loaded\<close>, its
  \<^verbatim>\<open>last_attempt\<close> is the time that the attempt recorded (the third reading of the
  clock in the request) and so is not null, its \<^verbatim>\<open>details\<close> is a string that is not
  empty, and the detector is left as that one attempt left it.
\<close>

theorem lazy_reload_once:
  assumes "\<not> model_loaded d"
  shows "(\<exists>evs. calls (snd (snd (yolo_detect_objects body w d))) = calls w @ evs \<and>
                filter is_path_check evs = [OsPathExists ''best.pt'']) \<and>
         (\<not> fst (load_model None (snd (datetime_now (snd (time_time w)))) d) \<longrightarrow>
            status_code (fst (yolo_detect_objects body w d)) = 503 \<and>
            field (content (fst (yolo_detect_objects body w d))) ''error''
              = Some (JStr ''YOLO model not loaded'') \<and>
            field (content (fst (yolo_detect_objects body w d))) ''last_attempt''
              = Some (JStr (isoformat (clock_datetime w (Suc (Suc (readings w)))))) \<and>
            (\<exists>msg. field (content (fst (yolo_detect_objects body w d))) ''details''
                     = Some (JStr msg) \<and> msg \<noteq> []) \<and>
            fst (snd (yolo_detect_objects body w d))
              = fst (snd (load_model None (snd (datetime_now (snd (time_time w)))) d)))"
proof
  let ?wb = "snd (datetime_now (snd (time_time w)))"
  obtain evs1 where l: "calls (snd (snd (load_model None ?wb d))) = calls ?wb @ evs1"
      "filter is_path_check evs1 = [OsPathExists (or_default None ''best.pt'')]"
    using load_model_path_checks by blast
  obtain evs2 where h: "calls (snd (snd (yolo_detect_objects body w d))) =
      calls (snd (snd (if \<not> model_loaded d then load_model None ?wb d else (True, d, ?wb))))
      @ evs2" "filter is_path_check evs2 = []"
    using yolo_detect_calls by blast
  from l h assms
  show "\<exists>evs. calls (snd (snd (yolo_detect_objects body w d))) = calls w @ evs \<and>
              filter is_path_check evs = [OsPathExists ''best.pt'']"
    by simp
next
  let ?wb = "snd (datetime_now (snd (time_time w)))"
  let ?r = "load_model None ?wb d"
  show "\<not> fst ?r \<longrightarrow>
            status_code (fst (yolo_detect_objects body w d)) = 503 \<and>
            field (content (fst (yolo_detect_objects body w d))) ''error''
              = Some (JStr ''YOLO model not loaded'') \<and>
            field (content (fst (yolo_detect_objects body w d))) ''last_attempt''
              = Some (JStr (isoformat (clock_datetime w (Suc (Suc (readings w)))))) \<and>
            (\<exists>msg. field (content (fst (yolo_detect_objects body w d))) ''details''
                     = Some (JStr msg) \<and> msg \<noteq> []) \<and>
            fst (snd (yolo_detect_objects body w d)) = fst (snd ?r)"
  proof
    assume "\<not> fst ?r"
    then have run: "?r = (False, fst (snd ?r), snd (snd ?r))"
      by (metis prod.collapse)
    have att: "last_load_attempt (fst (snd ?r)) = Some (clock_datetime w (Suc (Suc (readings w))))"
      using load_model_attempt_recorded [of None ?wb d] by simp
    from yolo_detect_unavailable [OF assms run, of body] att
    show "status_code (fst (yolo_detect_objects body w d)) = 503 \<and>
            field (content (fst (yolo_detect_objects body w d))) ''error''
              = Some (JStr ''YOLO model not loaded'') \<and>
            field (content (fst (yolo_detect_objects body w d))) ''last_attempt''
              = Some (JStr (isoformat (clock_datetime w (Suc (Suc (readings w)))))) \<and>
            (\<exists>msg. field (content (fst (yolo_detect_objects body w d))) ''details''
                     = Some (JStr msg) \<and> msg \<noteq> []) \<and>
            fst (snd (yolo_detect_objects body w d)) = fst (snd ?r)"
      by (simp split: option.split)
  qed
qed


text \<open>The theorem at a first request with no model file.\<close>

theorem lazy_reload_once_witness:
  "model_loaded detector_init = False \<and>
   fst (load_model None (snd (datetime_now (snd (time_time (example_world Map.empty)))))
          detector_init) = False \<and>
   calls (snd (snd (yolo_detect_objects [] (example_world Map.empty) detector_init)))
     = [OsPathExists ''best.pt''] \<and>
   status_code (fst (yolo_detect_objects [] (example_world Map.empty) detector_init)) = 503 \<and>
   field (content (fst (yolo_detect_objects [] (example_world Map.empty) detector_init)))
     ''error'' = Some (JStr ''YOLO model not loaded'') \<and>
   field (content (fst (yolo_detect_objects [] (example_world Map.empty) detector_init)))
     ''last_attempt'' = Some (JStr ''2024-05-17T09:30:12.250000'')"
proof -
  have nl: "\<not> model_loaded detector_init"
    by simp
  have failed: "fst (load_model None (snd (datetime_now (snd (time_time (example_world Map.empty)))))
          detector_init) = False"
    by (simp add: load_model_missing example_world_empty)
  from lazy_reload_once [OF nl, of "[]" "example_world Map.empty"] failed nl
  show ?thesis
    by (simp add: yolo_detect_example_unavailable)
qed

subsection \<open>A loaded detector holds a tested model\<close>

text \<open>
  The server calls \<open>load_model\<close> only on a detector that is not loaded. So in every
  detector that a running server can hold, \<open>model_loaded\<close> implies that the model
  held has passed its smoke test.
\<close>

lemma load_model_unloaded:
  assumes "\<not> model_loaded d" and "model_loaded (fst (snd (load_model path w d)))"
  shows "\<exists>m r. model (fst (snd (load_model path w d))) = Some m \<and>
               predict m dummy_image None = Inr r"
proof (cases rule: load_model_cases [of w path])
  case missing
  from load_model_missing [OF missing, of d] assms show ?thesis by simp
next
  case (parse_error e)
  from load_model_parse_error [OF parse_error, of d] assms show ?thesis by simp
next
  case (smoke_error m e)
  from load_model_smoke_error [OF smoke_error, of d] assms show ?thesis by simp
next
  case (success m r)
  from load_model_success [OF success, of d] success(3) show ?thesis by simp
qed

lemma yolo_detect_detector:
  "fst (snd (yolo_detect_objects body w d)) =
     (if model_loaded d then d
      else fst (snd (load_model None (snd (datetime_now (snd (time_time w)))) d)))"
  by (simp add: yolo_detect_objects_def Let_def split_beta split: option.split)

lemma served_smoke_tested:
  assumes "served d" and "model_loaded d"
  shows "\<exists>m r. model d = Some m \<and> predict m dummy_image None = Inr r"
  using assms
proof (induction rule: served.induct)
  case created
  then show ?case by simp
next
  case (initialized w)
  then show ?case
    unfolding initialize_yolo_def by (intro load_model_unloaded) simp_all
next
  case (requested d body w)
  show ?case
  proof (cases "model_loaded d")
    case True
    with requested.IH show ?thesis by (simp add: yolo_detect_detector)
  next
    case False
    with requested.prems
    have "model_loaded (fst (snd (load_model None (snd (datetime_now (snd (time_time w)))) d)))"
      by (simp add: yolo_detect_detector)
    from load_model_unloaded [OF False this] False show ?thesis
      by (simp add: yolo_detect_detector)
  qed
qed


subsection \<open>Bodies under 1000 bytes\<close>

text \<open>
  Claim C1, as corrected. A body shorter than 1000 bytes is answered by 400 with the
  message \<^verbatim>\<open>Image too small - minimum 1KB required\<close>, whatever its bytes: by
  \<^verbatim>\<open>/upload-image\<close> in every state, and by \<^verbatim>\<open>/yolo-detect\<close> whenever a model is
  loaded or the lazy reload succeeds. When no model is loaded and the reload fails,
  \<^verbatim>\<open>/yolo-detect\<close> answers 503 before it looks at the body.
\<close>

theorem small_body_rejected:
  assumes "length body < 1000"
  shows "status_code (fst (upload_image_direct body w)) = 400 \<and>
         field (content (fst (upload_image_direct body w))) ''error''
           = Some (JStr ''Image too small - minimum 1KB required'') \<and>
         (model_loaded d \<or> fst (load_model None (snd (datetime_now (snd (time_time w)))) d) \<longrightarrow>
            status_code (fst (yolo_detect_objects body w d)) = 400 \<and>
            field (content (fst (yolo_detect_objects body w d))) ''error''
              = Some (JStr ''Image too small - minimum 1KB required'')) \<and>
         (\<not> model_loaded d \<and> \<not> fst (load_model None (snd (datetime_now (snd (time_time w)))) d)
            \<longrightarrow> status_code (fst (yolo_detect_objects body w d)) = 503)"
proof -
  let ?wb = "snd (datetime_now (snd (time_time w)))"
  let ?r = "load_model None ?wb d"
  let ?a = "if \<not> model_loaded d then ?r else (True, d, ?wb)"
  have up: "status_code (fst (upload_image_direct body w)) = 400 \<and>
         field (content (fst (upload_image_direct body w))) ''error''
           = Some (JStr ''Image too small - minimum 1KB required'')"
    by (simp add: upload_too_small [OF assms])
  have ok: "status_code (fst (yolo_detect_objects body w d)) = 400 \<and>
            field (content (fst (yolo_detect_objects body w d))) ''error''
              = Some (JStr ''Image too small - minimum 1KB required'')"
    if "model_loaded d \<or> fst ?r"
  proof -
    from that have "?a = (True, fst (snd ?a), snd (snd ?a))"
      by (auto simp: prod_eq_iff)
    from yolo_detect_too_small [OF this assms] show ?thesis
      by simp
  qed
  have no: "status_code (fst (yolo_detect_objects body w d)) = 503"
    if "\<not> model_loaded d" "\<not> fst ?r"
  proof -
    from that(2) have "?r = (False, fst (snd ?r), snd (snd ?r))"
      by (simp add: prod_eq_iff)
    from yolo_detect_unavailable [OF that(1) this] show ?thesis
      by simp
  qed
  from up ok no show ?thesis by blast
qed

text \<open>The theorem at the empty body, with a model loaded.\<close>

theorem small_body_rejected_witness:
  "length ([] :: bytes) < 1000 \<and>
   status_code (fst (upload_image_direct [] (example_world Map.empty))) = 400 \<and>
   model_loaded loaded_detector \<and>
   status_code (fst (yolo_detect_objects [] (example_world Map.empty) loaded_detector)) = 400 \<and>
   field (content (fst (yolo_detect_objects [] (example_world Map.empty) loaded_detector)))
     ''error'' = Some (JStr ''Image too small - minimum 1KB required'')"
proof -
  have "length ([] :: bytes) < 1000" by simp
  from small_body_rejected [OF this, of "example_world Map.empty" loaded_detector]
  show ?thesis by (simp add: loaded_detector_eq)
qed

text \<open>
  Claim C1 as it is stated fails: with no model loaded and no model file, the empty
  body sent to \<^verbatim>\<open>/yolo-detect\<close> is answered by 503, not by 400.
\<close>

theorem small_body_without_model:
  "length ([] :: bytes) < 1000 \<and>
   model_loaded detector_init = False \<and>
   status_code (fst (yolo_detect_objects [] (example_world Map.empty) detector_init)) = 503 \<and>
   status_code (fst (yolo_detect_objects [] (example_world Map.empty) detector_init)) \<noteq> 400"
  by (simp add: yolo_detect_example_unavailable)

section \<open>Rounding\<close>







section \<open>The detections of one image\<close>









text \<open>
  The two loops succeed exactly when every box they visit gives a detection; they then
  append these detections in order and add their number to the count.
\<close>

lemma boxes_loop_Inr:
  "boxes_loop m bs (ds, n) = Inr (ds', n') \<longleftrightarrow>
     (\<exists>new. list_all2 (\<lambda>b det. detection_info m b = Inr det) bs new \<and>
            ds' = ds @ new \<and> n' = n + length bs)"
proof (induction bs arbitrary: ds n)
  case Nil
  then show ?case by auto
next
  case (Cons b bs)
  show ?case
  proof (cases "detection_info m b")
    case (Inl e)
    then show ?thesis by (simp add: list_all2_Cons1)
  next
    case (Inr info)
    then show ?thesis
      by (auto simp: Cons.IH list_all2_Cons1)
  qed
qed

lemma results_loop_Inr:
  "results_loop m rs (ds, n) = Inr (ds', n') \<longleftrightarrow>
     (\<exists>new. list_all2 (\<lambda>b det. detection_info m b = Inr det) (emitted_boxes rs) new \<and>
            ds' = ds @ new \<and> n' = n + length (emitted_boxes rs))"
proof (induction rs arbitrary: ds n)
  case Nil
  then show ?case by auto
next
  case (Cons r rs)
  show ?case
  proof (cases r)
    case None
    then show ?thesis by (simp add: Cons.IH)
  next
    case (Some boxes)
    show ?thesis
    proof (cases "boxes_loop m boxes (ds, n)")
      case (Inl e)
      then have "\<not> (\<exists>new. list_all2 (\<lambda>b det. detection_info m b = Inr det) boxes new)"
        using boxes_loop_Inr [of m boxes ds n] by auto
      then have "\<not> (\<exists>new. list_all2 (\<lambda>b det. detection_info m b = Inr det)
                         (boxes @ emitted_boxes rs) new)"
        by (auto simp: list_all2_append1)
      with Inl Some show ?thesis by simp
    next
      case (Inr acc)
      obtain ds1 n1 where acc: "acc = (ds1, n1)" by (cases acc)
      from Inr acc obtain new1 where
        new1: "list_all2 (\<lambda>b det. detection_info m b = Inr det) boxes new1"
          "ds1 = ds @ new1" "n1 = n + length boxes"
        using boxes_loop_Inr [of m boxes ds n ds1 n1] by auto
      have uniq: "us = new1"
        if "list_all2 (\<lambda>b det. detection_info m b = Inr det) boxes us" for us
        using that new1(1)
        by (induction boxes arbitrary: us new1) (auto simp: list_all2_Cons1)
      have step: "results_loop m (r # rs) (ds, n) = results_loop m rs (ds1, n1)"
        using Some Inr acc by simp
      show ?thesis
      proof
        assume "results_loop m (r # rs) (ds, n) = Inr (ds', n')"
        with step have "results_loop m rs (ds1, n1) = Inr (ds', n')" by simp
        then obtain new2 where
          new2: "list_all2 (\<lambda>b det. detection_info m b = Inr det) (emitted_boxes rs) new2"
            "ds' = ds1 @ new2" "n' = n1 + length (emitted_boxes rs)"
          using Cons.IH by blast
        from new1 new2 Some
        have "list_all2 (\<lambda>b det. detection_info m b = Inr det) (emitted_boxes (r # rs))
                (new1 @ new2) \<and> ds' = ds @ new1 @ new2 \<and>
              n' = n + length (emitted_boxes (r # rs))"
          by (simp add: list_all2_appendI)
        then show "\<exists>new. list_all2 (\<lambda>b det. detection_info m b = Inr det)
                        (emitted_boxes (r # rs)) new \<and>
                      ds' = ds @ new \<and> n' = n + length (emitted_boxes (r # rs))"
          by blast
      next
        assume "\<exists>new. list_all2 (\<lambda>b det. detection_info m b = Inr det)
                        (emitted_boxes (r # rs)) new \<and>
                      ds' = ds @ new \<and> n' = n + length (emitted_boxes (r # rs))"
        with Some obtain new where
          new: "list_all2 (\<lambda>b det. detection_info m b = Inr det) (boxes @ emitted_boxes rs) new"
            "ds' = ds @ new" "n' = n + length (boxes @ emitted_boxes rs)"
          by auto
        from new(1) obtain us vs where
          split: "new = us @ vs" "list_all2 (\<lambda>b det. detection_info m b = Inr det) boxes us"
            "list_all2 (\<lambda>b det. detection_info m b = Inr det) (emitted_boxes rs) vs"
          by (auto simp: list_all2_append1)
        from uniq [OF split(2)] split new new1
        have "list_all2 (\<lambda>b det. detection_info m b = Inr det) (emitted_boxes rs) vs \<and>
              ds' = ds1 @ vs \<and> n' = n1 + length (emitted_boxes rs)"
          by simp
        then have "results_loop m rs (ds1, n1) = Inr (ds', n')"
          using Cons.IH by blast
        with step show "results_loop m (r # rs) (ds, n) = Inr (ds', n')" by simp
      qed
    qed
  qed
qed

lemma detect_objects_run:
  assumes "model_loaded d" and "model d = Some m" and "body \<noteq> []"
    and "imdecode w body = Some img"
    and "predict m img (Some (3 / 10)) = Inr results"
  shows "detect_objects body w d =
           ((case results_loop m results ([], 0) of
               Inl e \<Rightarrow> (None, Some (''Detection error: '' @ e))
             | Inr (detections, total_count) \<Rightarrow>
                 (Some \<lparr>total_objects = total_count, objects_detected = detections,
                        image_dimensions = \<lparr>dim_width = shape1 img, dim_height = shape0 img\<rparr>\<rparr>,
                  None)),
            record_call (ModelCall img (Some (3 / 10))) w)"
  using assms by (simp add: detect_objects_def Let_def split: sum.split prod.split)

subsection \<open>The example image with one carrot\<close>

lemma jpeg_body_simps [simp]:
  "length (jpeg_body x) = 1000"
  "jpeg_body x \<noteq> []"
  "jpeg_body x ! 2 = x"
  "jpeg_bracketed (jpeg_body x)"
  by (simp_all add: jpeg_body_def jpeg_bracketed_def startswith_def endswith_def nth_append)


lemma example_imdecode:
  "x \<noteq> 0 \<Longrightarrow> imdecode (example_world fs) (jpeg_body x) =
     Some \<lparr>shape0 = 480, shape1 = 640, pixel = (\<lambda>i j c. x)\<rparr>"
  "imdecode (example_world fs) (jpeg_body 0) = None"
  by (simp_all add: example_world_def)

lemma carrot_model_predict:
  "predict carrot_model \<lparr>shape0 = 480, shape1 = 640, pixel = (\<lambda>i j c. 1)\<rparr> c
     = Inr [Some [carrot_box]]"
  "predict carrot_model \<lparr>shape0 = 480, shape1 = 640, pixel = (\<lambda>i j c. 2)\<rparr> c
     = Inr [None, Some []]"
  by (simp_all add: carrot_model_def)

lemma loaded_detector_simps [simp]:
  "model_loaded loaded_detector"
  "model loaded_detector = Some carrot_model"
  by (simp_all add: loaded_detector_eq)


subsection \<open>Counts, confidences and boxes\<close>



subsection \<open>Corners, width and height\<close>





subsection \<open>The pair that detect\_objects returns\<close>

text \<open>
  Claim C10. Every call of \<open>detect_objects\<close> returns either a result and no error, or
  no result and an error message that is not empty: exactly one component of the pair
  is \<^verbatim>\<open>None\<close>, and the error alone tells success from failure.
\<close>

theorem detect_objects_pair:
  "(\<exists>res. fst (detect_objects body w d) = (Some res, None)) \<or>
   (\<exists>msg. fst (detect_objects body w d) = (None, Some msg) \<and> 0 < length msg)"
  by (simp add: detect_objects_def Let_def split: option.split sum.split prod.split)


text \<open>The theorem at a body that does not decode, and at a detector with no model.\<close>

theorem detect_objects_pair_witness:
  "fst (detect_objects (jpeg_body 0) (example_world Map.empty) loaded_detector)
     = (None, Some ''Failed to decode image'') \<and>
   fst (detect_objects (jpeg_body 0) (example_world Map.empty) detector_init)
     = (None, Some ''YOLO model not loaded'')"
  using detect_objects_pair [of "jpeg_body 0" "example_world Map.empty" loaded_detector]
  by (simp add: detect_objects_def example_imdecode)

section \<open>An image without objects\<close>

lemma yolo_detect_success:
  assumes "model_loaded d" and "1000 \<le> length body" and "length body \<le> 10 * 1024 * 1024"
    and "jpeg_bracketed body"
    and "fst (detect_objects body (snd (time_time (snd (datetime_now (snd (time_time w)))))) d)
           = (Some res, None)"
    and "list_all (\<lambda>det. is_finite (confidence det)) (objects_detected res)"
  shows "\<exists>detection_time processing_time server_timestamp.
           fst (yolo_detect_objects body w d) =
             \<lparr>status_code = 200,
              content = JDict
                [(''status'', JStr ''success''),
                 (''message'', JStr ''YOLO detection completed successfully''),
                 (''image_info'', JDict
                    [(''size_bytes'', JInt (int (length body))),
                     (''size_kb'', size_kb (length body)),
                     (''dimensions'', dimensions_json (image_dimensions res)),
                     (''format'', JStr ''JPEG'')]),
                 (''detection_results'', JDict
                    [(''total_objects'', JInt (int (total_objects res))),
                     (''objects_detected'', JList (map detection_json (objects_detected res))),
                     (''detection_time'', detection_time)]),
                 (''processing_time'', processing_time),
                 (''server_timestamp'', server_timestamp)]\<rparr>"
  using assms by (simp add: yolo_detect_objects_def Let_def split_beta)

text \<open>
  Claim C5. Take a body that passes the checks of the handler (1000 bytes to 10 MiB,
  between the JPEG markers) and decodes, with a model loaded that returns results
  without any box. Then \<open>detect_objects\<close> returns a result, with \<^verbatim>\<open>total_objects\<close>
  0 and an empty list \<^verbatim>\<open>objects_detected\<close>, and no error; and \<^verbatim>\<open>/yolo-detect\<close>
  answers 200 with status \<^verbatim>\<open>success\<close>, \<^verbatim>\<open>total_objects\<close> 0 and an empty list.
\<close>

theorem no_detections_is_success:
  assumes "model_loaded d" and "model d = Some m"
    and "1000 \<le> length body" and "length body \<le> 10 * 1024 * 1024"
    and "jpeg_bracketed body"
    and "imdecode w body = Some img"
    and "predict m img (Some (3 / 10)) = Inr results"
    and "emitted_boxes results = []"
  shows "fst (detect_objects body w d) =
           (Some \<lparr>total_objects = 0, objects_detected = [],
                  image_dimensions = \<lparr>dim_width = shape1 img, dim_height = shape0 img\<rparr>\<rparr>,
            None) \<and>
         status_code (fst (yolo_detect_objects body w d)) = 200 \<and>
         field (content (fst (yolo_detect_objects body w d))) ''status''
           = Some (JStr ''success'') \<and>
         (\<exists>dr. field (content (fst (yolo_detect_objects body w d))) ''detection_results''
                  = Some dr \<and>
               field dr ''total_objects'' = Some (JInt 0) \<and>
               field dr ''objects_detected'' = Some (JList []))"
proof -
  let ?res = "\<lparr>total_objects = 0, objects_detected = [],
               image_dimensions = \<lparr>dim_width = shape1 img, dim_height = shape0 img\<rparr>\<rparr>"
  from assms(3) have ne: "body \<noteq> []" by auto
  have loop: "results_loop m results ([], 0) = Inr ([], 0)"
    using assms(8) by (simp add: results_loop_Inr)
  have det: "fst (detect_objects body w' d) = (Some ?res, None)" if "imdecode w' = imdecode w" for w'
    using detect_objects_run [OF assms(1,2) ne, of w' img results] that assms(6,7) loop
    by simp
  have here: "fst (detect_objects body w d) = (Some ?res, None)"
    by (rule det) simp
  have "fst (detect_objects body (snd (time_time (snd (datetime_now (snd (time_time w)))))) d)
          = (Some ?res, None)"
    by (rule det) simp
  from yolo_detect_success [OF assms(1,3,4,5) this] here
  show ?thesis by auto
qed

text \<open>The theorem at the example image on which the model finds nothing.\<close>

theorem no_detections_is_success_witness:
  "model_loaded loaded_detector \<and> model loaded_detector = Some carrot_model \<and>
   length (jpeg_body 2) = 1000 \<and> jpeg_bracketed (jpeg_body 2) \<and>
   imdecode (example_world Map.empty) (jpeg_body 2)
     = Some \<lparr>shape0 = 480, shape1 = 640, pixel = (\<lambda>i j c. 2)\<rparr> \<and>
   predict carrot_model \<lparr>shape0 = 480, shape1 = 640, pixel = (\<lambda>i j c. 2)\<rparr> (Some (3 / 10))
     = Inr [None, Some []] \<and>
   emitted_boxes [None, Some []] = [] \<and>
   fst (detect_objects (jpeg_body 2) (example_world Map.empty) loaded_detector) =
     (Some \<lparr>total_objects = 0, objects_detected = [],
            image_dimensions = \<lparr>dim_width = 640, dim_height = 480\<rparr>\<rparr>, None) \<and>
   status_code (fst (yolo_detect_objects (jpeg_body 2) (example_world Map.empty) loaded_detector))
     = 200"
proof -
  let ?img = "\<lparr>shape0 = 480, shape1 = 640, pixel = (\<lambda>i j c. 2 :: byte)\<rparr>"
  have dec: "imdecode (example_world Map.empty) (jpeg_body 2) = Some ?img"
    by (simp add: example_imdecode)
  have pre: "predict carrot_model ?img (Some (3 / 10)) = Inr [None, Some []]"
    by (simp add: carrot_model_predict)
  have none: "emitted_boxes [None, Some []] = []"
    by simp
  from no_detections_is_success [of loaded_detector carrot_model "jpeg_body 2"
      "example_world Map.empty" ?img "[None, Some []]"] dec pre none
  show ?thesis by simp
qed

section \<open>Timestamps in file names\<close>

text \<open>
  A number can be read back from its padded print, and the print of a bounded number
  has a fixed length: two valid times have the same \<open>strftime\<close> exactly when they
  agree down to the second.
\<close>

lemma digit_value_digit_char: "d < 10 \<Longrightarrow> digit_value (digit_char d) = d"
proof -
  assume "d < 10"
  then have "d \<in> {0, 1, 2, 3, 4, 5, 6, 7, 8, 9}" by auto
  then show ?thesis
    by (auto simp: digit_value_def digit_char_def)
qed

lemma digit_value_digit_char_mod: "digit_value (digit_char n) = n mod 10"
proof -
  have "digit_char n = digit_char (n mod 10)"
    by (simp add: digit_char_def)
  then show ?thesis
    by (simp add: digit_value_digit_char)
qed

lemma parse_nat_snoc: "parse_nat (s @ [c]) = 10 * parse_nat s + digit_value c"
  by (simp add: parse_nat_def)

lemma parse_nat_str_nat: "parse_nat (str_nat n) = n"
proof (induction n rule: str_nat.induct)
  case (1 n)
  show ?case
  proof (cases "n < 10")
    case True
    then show ?thesis
      by (subst str_nat.simps) (simp add: parse_nat_def digit_value_digit_char)
  next
    case False
    with 1 have "parse_nat (str_nat (n div 10)) = n div 10" by simp
    with False show ?thesis
      by (subst str_nat.simps) (simp add: parse_nat_snoc digit_value_digit_char_mod)
  qed
qed

lemma parse_nat_zeros: "parse_nat (replicate j (CHR ''0'') @ s) = parse_nat s"
proof -
  have "foldl (\<lambda>acc c. 10 * acc + digit_value c) 0 (replicate j (CHR ''0'')) = 0"
    by (induction j) (simp_all add: digit_value_def)
  then show ?thesis
    by (simp add: parse_nat_def)
qed

lemma parse_nat_zero_pad: "parse_nat (zero_pad k n) = n"
  by (simp add: zero_pad_def parse_nat_zeros parse_nat_str_nat)

lemma length_str_nat: "n < 10 ^ k \<Longrightarrow> 0 < k \<Longrightarrow> length (str_nat n) \<le> k"
proof (induction k arbitrary: n)
  case 0
  then show ?case by simp
next
  case (Suc k)
  show ?case
  proof (cases "n < 10")
    case True
    then show ?thesis by (subst str_nat.simps) simp
  next
    case False
    with Suc.prems have "0 < k" by (cases k) auto
    moreover from Suc.prems have "n div 10 < 10 ^ k" by (simp add: less_mult_imp_div_less)
    ultimately have "length (str_nat (n div 10)) \<le> k" by (rule Suc.IH [rotated])
    with False show ?thesis by (subst str_nat.simps) simp
  qed
qed

lemma length_zero_pad: "n < 10 ^ k \<Longrightarrow> 0 < k \<Longrightarrow> length (zero_pad k n) = k"
  using length_str_nat [of n k] by (simp add: zero_pad_def)

lemma strftime_same_second: "same_second a b \<Longrightarrow> strftime a = strftime b"
  by (simp add: same_second_def strftime_def)

lemma strftime_inj:
  assumes "valid_datetime a" and "valid_datetime b" and "strftime a = strftime b"
  shows "same_second a b"
proof -
  have len: "length (zero_pad 4 (year t)) = 4" "length (zero_pad 2 (month t)) = 2"
    "length (zero_pad 2 (day t)) = 2" "length (zero_pad 2 (hour t)) = 2"
    "length (zero_pad 2 (minute t)) = 2" "length (zero_pad 2 (second t)) = 2"
    if "valid_datetime t" for t
    using that by (simp_all add: valid_datetime_def length_zero_pad)
  from assms(3) len [OF assms(1)] len [OF assms(2)]
  have "zero_pad 4 (year a) = zero_pad 4 (year b) \<and>
        zero_pad 2 (month a) = zero_pad 2 (month b) \<and>
        zero_pad 2 (day a) = zero_pad 2 (day b) \<and>
        zero_pad 2 (hour a) = zero_pad 2 (hour b) \<and>
        zero_pad 2 (minute a) = zero_pad 2 (minute b) \<and>
        zero_pad 2 (second a) = zero_pad 2 (second b)"
    by (simp add: strftime_def)
  then show ?thesis
    unfolding same_second_def by (metis parse_nat_zero_pad)
qed


lemma example_time_two: "example_time\<lparr>second := Suc (Suc 0)\<rparr> = example_time\<lparr>second := 2\<rparr>"
  by (simp add: numeral_2_eq_2)

lemma example_times:
  "strftime (example_time\<lparr>second := 2\<rparr>) = ''20240517_093002''"
  "strftime (example_time\<lparr>second := 6\<rparr>) = ''20240517_093006''"
  "valid_datetime (example_time\<lparr>second := 2\<rparr>)"
  "valid_datetime (example_time\<lparr>second := 6\<rparr>)"
  "\<not> same_second (example_time\<lparr>second := 2\<rparr>) (example_time\<lparr>second := 6\<rparr>)"
  "same_second example_time example_time"
  by (simp_all add: strftime_def example_time_def zero_pad_def str_nat.simps digit_char_def
      valid_datetime_def same_second_def)

section \<open>Uploads\<close>

text \<open>What an upload answered by 200 has done, and when an upload is answered by 200.\<close>

lemma upload_image_accepted:
  assumes "upload_image_direct body w = (r, w')" and "status_code r = 200"
  shows "field (content r) ''saved_to'' =
           Some (JStr (''received_images/esp32_image_''
                       @ strftime (clock_datetime w (readings w + 2)) @ ''.jpg'')) \<and>
         files w' = (files w)(''received_images/esp32_image_''
                       @ strftime (clock_datetime w (readings w + 2)) @ ''.jpg'' \<mapsto> body) \<and>
         readings w' = readings w + 4 \<and>
         clock_datetime w' = clock_datetime w"
  using assms
  by (auto simp: upload_image_direct_def Let_def split_beta error_response_def write_file_def
      os_makedirs_def split: if_splits option.splits)

lemma upload_image_saved:
  assumes "1000 \<le> length body" and "length body \<le> 5 * 1024 * 1024" and "jpeg_bracketed body"
    and "os_error w (MakeDirs ''received_images'') = None"
    and "os_error w (OpenWrite (''received_images/esp32_image_''
                       @ strftime (clock_datetime w (readings w + 2)) @ ''.jpg'')) = None"
    and "os_error w (FileWrite (''received_images/esp32_image_''
                       @ strftime (clock_datetime w (readings w + 2)) @ ''.jpg'')) = None"
    and "files w ''received_images'' = None"
    and "''received_images/esp32_image_''
                       @ strftime (clock_datetime w (readings w + 2)) @ ''.jpg'' \<notin> dirs w"
  shows "status_code (fst (upload_image_direct body w)) = 200 \<and>
         dirs (snd (upload_image_direct body w)) = insert ''received_images'' (dirs w) \<and>
         os_error (snd (upload_image_direct body w)) = os_error w"
  using assms
  by (auto simp: upload_image_direct_def Let_def split_beta error_response_def write_file_def
      os_makedirs_def os_path_exists_def split: if_splits option.splits)

lemma ticking_world_fields [simp]:
  "clock_datetime (ticking_world fs) n = example_time\<lparr>second := n\<rparr>"
  "readings (ticking_world fs) = 0"
  "files (ticking_world fs) = fs"
  "dirs (ticking_world fs) = {}"
  "os_error (ticking_world fs) c = None"
  by (simp_all add: ticking_world_def example_world_def)

lemma two_uploads_accepted:
  assumes "\<And>c. os_error w c = None" and "files w = Map.empty" and "dirs w = {}"
  shows "status_code (fst (upload_image_direct (jpeg_body x) w)) = 200"
    and "status_code (fst (upload_image_direct (jpeg_body y)
                            (snd (upload_image_direct (jpeg_body x) w)))) = 200"
proof -
  let ?u = "upload_image_direct (jpeg_body x) w"
  have first: "status_code (fst ?u) = 200 \<and>
         dirs (snd ?u) = insert ''received_images'' (dirs w) \<and>
         os_error (snd ?u) = os_error w"
    by (rule upload_image_saved) (simp_all add: assms)
  then show "status_code (fst ?u) = 200" by simp
  have "?u = (fst ?u, snd ?u)" by simp
  from upload_image_accepted [OF this] first
  have fs: "files (snd ?u) = (files w)(''received_images/esp32_image_''
                       @ strftime (clock_datetime w (readings w + 2)) @ ''.jpg'' \<mapsto> jpeg_body x)"
    by simp
  have "status_code (fst (upload_image_direct (jpeg_body y) (snd ?u))) = 200 \<and>
         dirs (snd (upload_image_direct (jpeg_body y) (snd ?u)))
           = insert ''received_images'' (dirs (snd ?u)) \<and>
         os_error (snd (upload_image_direct (jpeg_body y) (snd ?u))) = os_error (snd ?u)"
    by (rule upload_image_saved) (simp_all add: assms first fs)
  then show "status_code (fst (upload_image_direct (jpeg_body y) (snd ?u))) = 200"
    by simp
qed

subsection \<open>Reading an upload back\<close>

text \<open>
  Claim C8. When \<^verbatim>\<open>/upload-image\<close> accepts a body, that is answers 200, its answer
  has a path under \<^verbatim>\<open>saved_to\<close>, and reading the file at that path afterwards gives
  exactly the bytes of the body.
\<close>

theorem upload_round_trip:
  assumes "upload_image_direct body w = (r, w')" and "status_code r = 200"
  shows "\<exists>p. field (content r) ''saved_to'' = Some (JStr p) \<and> read_file w' p = Some body"
  using upload_image_accepted [OF assms] by (simp add: read_file_def)

text \<open>The theorem at a first upload into an empty directory.\<close>

theorem upload_round_trip_witness:
  "status_code (fst (upload_image_direct (jpeg_body 7) (example_world Map.empty))) = 200 \<and>
   field (content (fst (upload_image_direct (jpeg_body 7) (example_world Map.empty)))) ''saved_to''
     = Some (JStr ''received_images/esp32_image_20240517_093012.jpg'') \<and>
   read_file (snd (upload_image_direct (jpeg_body 7) (example_world Map.empty)))
     ''received_images/esp32_image_20240517_093012.jpg'' = Some (jpeg_body 7)"
proof -
  let ?u = "upload_image_direct (jpeg_body 7) (example_world Map.empty)"
  have run: "?u = (fst ?u, snd ?u)" by simp
  have ok: "status_code (fst ?u) = 200"
    by (rule two_uploads_accepted) simp_all
  from upload_round_trip [OF run ok] upload_image_accepted [OF run ok] ok
  show ?thesis
    by (auto simp: strftime_example_time)
qed

subsection \<open>Two uploads in a row\<close>

text \<open>
  Claim C9, as corrected. Take two uploads in a row that are both answered by 200,
  named after the times \<open>t1\<close> and \<open>t2\<close> (the third reading of the clock in each
  request). If the two times agree down to the second, both uploads are saved under
  the same name, and the file holds the bytes of the second upload: the second
  overwrites the first. If the two times are valid and differ at second resolution,
  the names differ and each file holds the bytes of its own upload.
\<close>

theorem sequential_uploads:
  assumes "upload_image_direct b1 w = (r1, w1)" and "status_code r1 = 200"
    and "upload_image_direct b2 w1 = (r2, w2)" and "status_code r2 = 200"
    and "t1 = clock_datetime w (readings w + 2)" and "t2 = clock_datetime w (readings w + 6)"
  shows "\<exists>p1 p2.
           field (content r1) ''saved_to'' = Some (JStr p1) \<and>
           field (content r2) ''saved_to'' = Some (JStr p2) \<and>
           (same_second t1 t2 \<longrightarrow> p1 = p2 \<and> read_file w2 p1 = Some b2) \<and>
           (valid_datetime t1 \<and> valid_datetime t2 \<and> \<not> same_second t1 t2 \<longrightarrow>
              p1 \<noteq> p2 \<and> read_file w2 p1 = Some b1 \<and> read_file w2 p2 = Some b2)"
proof -
  let ?p1 = "''received_images/esp32_image_'' @ strftime t1 @ ''.jpg''"
  let ?p2 = "''received_images/esp32_image_'' @ strftime t2 @ ''.jpg''"
  from upload_image_accepted [OF assms(1,2)] assms(5)
  have a1: "field (content r1) ''saved_to'' = Some (JStr ?p1)"
    "files w1 = (files w)(?p1 \<mapsto> b1)" "readings w1 = readings w + 4"
    "clock_datetime w1 = clock_datetime w"
    by simp_all
  from upload_image_accepted [OF assms(3,4)] a1(3,4) assms(6)
  have a2: "field (content r2) ''saved_to'' = Some (JStr ?p2)"
    "files w2 = (files w1)(?p2 \<mapsto> b2)"
    by (simp_all add: add.commute)
  have same: "?p1 = ?p2 \<and> read_file w2 ?p1 = Some b2" if "same_second t1 t2"
    using strftime_same_second [OF that] a2(2) by (simp add: read_file_def)
  have differ: "?p1 \<noteq> ?p2 \<and> read_file w2 ?p1 = Some b1 \<and> read_file w2 ?p2 = Some b2"
    if "valid_datetime t1" "valid_datetime t2" "\<not> same_second t1 t2"
  proof -
    from that strftime_inj [of t1 t2] have "strftime t1 \<noteq> strftime t2" by blast
    then have "?p1 \<noteq> ?p2" by simp
    with a1(2) a2(2) show ?thesis by (simp add: read_file_def)
  qed
  from a1(1) a2(1) same differ show ?thesis by blast
qed


text \<open>
  The theorem at two uploads while the clock stands still, and at two uploads four
  seconds apart.
\<close>

theorem sequential_uploads_witness:
  "status_code (fst (upload_image_direct (jpeg_body 1) (example_world Map.empty))) = 200 \<and>
   status_code (fst (upload_image_direct (jpeg_body 2)
       (snd (upload_image_direct (jpeg_body 1) (example_world Map.empty))))) = 200 \<and>
   same_second example_time example_time \<and>
   read_file (snd (upload_image_direct (jpeg_body 2)
       (snd (upload_image_direct (jpeg_body 1) (example_world Map.empty)))))
     ''received_images/esp32_image_20240517_093012.jpg'' = Some (jpeg_body 2) \<and>
   status_code (fst (upload_image_direct (jpeg_body 1) (ticking_world Map.empty))) = 200 \<and>
   status_code (fst (upload_image_direct (jpeg_body 2)
       (snd (upload_image_direct (jpeg_body 1) (ticking_world Map.empty))))) = 200 \<and>
   valid_datetime (example_time\<lparr>second := 2\<rparr>) \<and>
   valid_datetime (example_time\<lparr>second := 6\<rparr>) \<and>
   \<not> same_second (example_time\<lparr>second := 2\<rparr>) (example_time\<lparr>second := 6\<rparr>) \<and>
   read_file (snd (upload_image_direct (jpeg_body 2)
       (snd (upload_image_direct (jpeg_body 1) (ticking_world Map.empty)))))
     ''received_images/esp32_image_20240517_093002.jpg'' = Some (jpeg_body 1) \<and>
   read_file (snd (upload_image_direct (jpeg_body 2)
       (snd (upload_image_direct (jpeg_body 1) (ticking_world Map.empty)))))
     ''received_images/esp32_image_20240517_093006.jpg'' = Some (jpeg_body 2)"
proof -
  let ?s1 = "upload_image_direct (jpeg_body 1) (example_world Map.empty)"
  let ?s2 = "upload_image_direct (jpeg_body 2) (snd ?s1)"
  let ?t1 = "upload_image_direct (jpeg_body 1) (ticking_world Map.empty)"
  let ?t2 = "upload_image_direct (jpeg_body 2) (snd ?t1)"
  have s: "status_code (fst ?s1) = 200" "status_code (fst ?s2) = 200"
    by (rule two_uploads_accepted; simp)+
  have t: "status_code (fst ?t1) = 200" "status_code (fst ?t2) = 200"
    by (rule two_uploads_accepted; simp)+
  have runs: "?s1 = (fst ?s1, snd ?s1)" "?s2 = (fst ?s2, snd ?s2)"
    "?t1 = (fst ?t1, snd ?t1)" "?t2 = (fst ?t2, snd ?t2)"
    by simp_all
  have standing: "\<exists>p1 p2.
           field (content (fst ?s1)) ''saved_to'' = Some (JStr p1) \<and>
           field (content (fst ?s2)) ''saved_to'' = Some (JStr p2) \<and>
           (same_second example_time example_time \<longrightarrow>
              p1 = p2 \<and> read_file (snd ?s2) p1 = Some (jpeg_body 2)) \<and>
           (valid_datetime example_time \<and> valid_datetime example_time \<and>
            \<not> same_second example_time example_time \<longrightarrow>
              p1 \<noteq> p2 \<and> read_file (snd ?s2) p1 = Some (jpeg_body 1) \<and>
              read_file (snd ?s2) p2 = Some (jpeg_body 2))"
    by (rule sequential_uploads [OF runs(1) s(1) runs(2) s(2)]) simp_all
  have ticking: "\<exists>p1 p2.
           field (content (fst ?t1)) ''saved_to'' = Some (JStr p1) \<and>
           field (content (fst ?t2)) ''saved_to'' = Some (JStr p2) \<and>
           (same_second (example_time\<lparr>second := 2\<rparr>) (example_time\<lparr>second := 6\<rparr>) \<longrightarrow>
              p1 = p2 \<and> read_file (snd ?t2) p1 = Some (jpeg_body 2)) \<and>
           (valid_datetime (example_time\<lparr>second := 2\<rparr>) \<and>
            valid_datetime (example_time\<lparr>second := 6\<rparr>) \<and>
            \<not> same_second (example_time\<lparr>second := 2\<rparr>) (example_time\<lparr>second := 6\<rparr>) \<longrightarrow>
              p1 \<noteq> p2 \<and> read_file (snd ?t2) p1 = Some (jpeg_body 1) \<and>
              read_file (snd ?t2) p2 = Some (jpeg_body 2))"
    by (rule sequential_uploads [OF runs(3) t(1) runs(4) t(2)]) (simp_all add: example_time_two)
  from upload_image_accepted [OF runs(1) s(1)]
  have p1: "field (content (fst ?s1)) ''saved_to''
              = Some (JStr ''received_images/esp32_image_20240517_093012.jpg'')"
    by (simp add: strftime_example_time)
  from upload_image_accepted [OF runs(3) t(1)]
  have q1: "field (content (fst ?t1)) ''saved_to''
              = Some (JStr ''received_images/esp32_image_20240517_093002.jpg'')"
    "readings (snd ?t1) = 4" "clock_datetime (snd ?t1) = clock_datetime (ticking_world Map.empty)"
    by (simp_all add: example_times example_time_two)
  from upload_image_accepted [OF runs(4) t(2)] q1(2,3)
  have q2: "field (content (fst ?t2)) ''saved_to''
              = Some (JStr ''received_images/esp32_image_20240517_093006.jpg'')"
    by (simp add: example_times)
  from standing p1 have a: "read_file (snd ?s2)
     ''received_images/esp32_image_20240517_093012.jpg'' = Some (jpeg_body 2)"
    by (auto simp: example_times)
  from ticking q1(1) q2 have b: "read_file (snd ?t2)
     ''received_images/esp32_image_20240517_093002.jpg'' = Some (jpeg_body 1) \<and>
     read_file (snd ?t2) ''received_images/esp32_image_20240517_093006.jpg'' = Some (jpeg_body 2)"
    by (auto simp: example_times)
  from s t a b show ?thesis
    by (simp add: example_times)
qed

text \<open>
  Claim C9 as it is stated fails: two uploads within the same second are both
  answered by 200 with the same \<^verbatim>\<open>saved_to\<close>, and the file holds the second body,
  which differs from the first.
\<close>

theorem same_second_uploads_collide:
  "same_second example_time example_time \<and>
   status_code (fst (upload_image_direct (jpeg_body 1) (example_world Map.empty))) = 200 \<and>
   status_code (fst (upload_image_direct (jpeg_body 2)
       (snd (upload_image_direct (jpeg_body 1) (example_world Map.empty))))) = 200 \<and>
   field (content (fst (upload_image_direct (jpeg_body 1) (example_world Map.empty)))) ''saved_to''
     = Some (JStr ''received_images/esp32_image_20240517_093012.jpg'') \<and>
   field (content (fst (upload_image_direct (jpeg_body 2)
       (snd (upload_image_direct (jpeg_body 1) (example_world Map.empty)))))) ''saved_to''
     = Some (JStr ''received_images/esp32_image_20240517_093012.jpg'') \<and>
   read_file (snd (upload_image_direct (jpeg_body 2)
       (snd (upload_image_direct (jpeg_body 1) (example_world Map.empty)))))
     ''received_images/esp32_image_20240517_093012.jpg'' = Some (jpeg_body 2) \<and>
   jpeg_body 2 \<noteq> jpeg_body 1"
proof -
  let ?s1 = "upload_image_direct (jpeg_body 1) (example_world Map.empty)"
  let ?s2 = "upload_image_direct (jpeg_body 2) (snd ?s1)"
  have s: "status_code (fst ?s1) = 200" "status_code (fst ?s2) = 200"
    by (rule two_uploads_accepted; simp)+
  have runs: "?s1 = (fst ?s1, snd ?s1)" "?s2 = (fst ?s2, snd ?s2)"
    by simp_all
  from upload_image_accepted [OF runs(1) s(1)]
  have p1: "field (content (fst ?s1)) ''saved_to''
              = Some (JStr ''received_images/esp32_image_20240517_093012.jpg'')"
    "clock_datetime (snd ?s1) = clock_datetime (example_world Map.empty)"
    by (simp_all add: strftime_example_time)
  from upload_image_accepted [OF runs(2) s(2)] p1(2)
  have p2: "field (content (fst ?s2)) ''saved_to''
              = Some (JStr ''received_images/esp32_image_20240517_093012.jpg'')"
    "read_file (snd ?s2) ''received_images/esp32_image_20240517_093012.jpg''
       = Some (jpeg_body 2)"
    by (simp_all add: strftime_example_time read_file_def)
  have ne: "jpeg_body 2 \<noteq> jpeg_body 1"
    by (simp add: jpeg_body_def)
  from s p1(1) p2 ne show ?thesis
    by (simp add: example_times)
qed

end
